theory Spec2Isabelle
  imports Complex_Main "HOL-Library.Sublist" "HOL-Library.Multiset"
begin

section \<open>JavaScript values used by the scraper\<close>

text \<open>
  A string is the list of its UTF-16 code units, as integers; \<open>str\<close> turns a literal of
  the theory into such a string. \<open>toLowerCase\<close> maps the letters \<open>A\<close>..\<open>Z\<close> to
  \<open>a\<close>..\<open>z\<close> and the Kelvin sign U+212A to \<open>k\<close>, maps the unit U+0130 (capital I with
  dot above) to the two units U+0069 U+0307, the one lower-case mapping that lengthens a
  string, and keeps every other unit. These are the units whose lower-case form has an
  ASCII letter, so that the search for an ASCII string in a lower-cased text finds what
  it finds in JavaScript; the letters beyond ASCII, which are lower-cased unit for unit
  to units beyond ASCII, are kept as they are.
\<close>

definition str :: "string \<Rightarrow> int list" where
  "str s = map of_char s"

definition upperLetters :: "int list" where
  "upperLetters = str ''ABCDEFGHIJKLMNOPQRSTUVWXYZ''"

definition lowerLetters :: "int list" where
  "lowerLetters = str ''abcdefghijklmnopqrstuvwxyz''"

definition asciiFold :: "int \<Rightarrow> int" where
  "asciiFold c = (case map_of (zip upperLetters lowerLetters) c of None \<Rightarrow> c | Some l \<Rightarrow> l)"

definition caseTable :: "(int \<times> int) list" where
  "caseTable = zip upperLetters lowerLetters @ [(8490, 107)]"

definition lowerSimple :: "int \<Rightarrow> int" where
  "lowerSimple c = (case map_of caseTable c of None \<Rightarrow> c | Some l \<Rightarrow> l)"

definition lowerUnit :: "int \<Rightarrow> int list" where
  "lowerUnit c = (if c = 304 then [105, 775] else [lowerSimple c])"

definition toLowerCase :: "int list \<Rightarrow> int list" where
  "toLowerCase s = concat (map lowerUnit s)"

text \<open>\<open>String.prototype.startsWith\<close>, \<open>indexOf\<close> (\<open>-1\<close> when absent) and \<open>includes\<close>.\<close>

fun startsWith :: "int list \<Rightarrow> int list \<Rightarrow> bool" where
  "startsWith s [] = True"
| "startsWith [] (p # ps) = False"
| "startsWith (c # cs) (p # ps) = (c = p \<and> startsWith cs ps)"

fun indexOfFrom :: "nat \<Rightarrow> int list \<Rightarrow> int list \<Rightarrow> int" where
  "indexOfFrom i [] p = (if p = [] then int i else -1)"
| "indexOfFrom i (c # cs) p =
     (if startsWith (c # cs) p then int i else indexOfFrom (Suc i) cs p)"

definition indexOf :: "int list \<Rightarrow> int list \<Rightarrow> int" where
  "indexOf s p = indexOfFrom 0 s p"

definition includesStr :: "int list \<Rightarrow> int list \<Rightarrow> bool" where
  "includesStr s p = (indexOf s p \<noteq> -1)"

text \<open>
  Numbers are modelled as exact reals. The one operation of the scorer that can leave the
  finite numbers, a division, is \<open>js_div\<close>, whose result \<open>None\<close> stands for the non-finite
  results of a division by zero (\<open>NaN\<close> for \<open>0/0\<close>, an infinity otherwise).
\<close>

definition js_div :: "real \<Rightarrow> real \<Rightarrow> real option" where
  "js_div a b = (if b = 0 then None else Some (a / b))"

text \<open>
  A \<open>Date\<close> holds a time value in milliseconds, or is an invalid date (time value \<open>NaN\<close>).
  The clock reading \<open>now\<close> of \<open>new Date()\<close> and \<open>Date.now()\<close> is a parameter in milliseconds.
\<close>

datatype Date = DateMs int | InvalidDate

text \<open>
  The exceptions of a run: the \<open>TypeError\<close> of reading a property of \<open>undefined\<close>, the
  error of the browser while searching, and the error of a query that the database
  refuses. \<open>NonFiniteScore\<close> marks a batch with a score that is not a finite number.
\<close>

datatype error = TypeError | BrowserError | PersistenceError | NonFiniteScore

section \<open>Data model\<close>

text \<open>\<open>JobDetails\<close> of the parser; an optional field that is \<open>undefined\<close> is \<open>None\<close>.\<close>

record JobDetails =
  title :: "int list"
  company :: "int list"
  company_url :: "int list option"
  job_url :: "int list"
  description :: "int list option"
  requirements :: "int list option"
  tech_stack :: "int list list option"
  salary_range :: "int list option"
  location :: "int list option"
  posted_date :: "Date option"

text \<open>
  The profile of the resume, with the fields that scoring and matching read. The interface
  \<open>ResumeData\<close> declares the profile under the key \<open>candidate\<close>, where the matcher and the
  orchestrator read it. The parser and the search read it under the key \<open>data\<close>, which
  the interface does not declare: \<open>data\<close> is \<open>None\<close> for a resume without that key, as one
  of the declared shape is, and reading a field of the profile through it then throws a
  \<open>TypeError\<close>.
\<close>

record Candidate =
  name :: "int list"
  cand_location :: "int list list"
  experience_years :: real
  roles :: "int list list"
  cand_tech_stack :: "int list list"

record ResumeData =
  candidate :: Candidate
  data :: "Candidate option"

section \<open>Relevance scorer (parser)\<close>

text \<open>\<open>x || ""\<close> and \<open>x || []\<close> on an optional field.\<close>

definition orEmpty :: "'a list option \<Rightarrow> 'a list" where
  "orEmpty x = (case x of None \<Rightarrow> [] | Some v \<Rightarrow> v)"

definition techMatches :: "int list list \<Rightarrow> int list list \<Rightarrow> int list list" where
  "techMatches userTechStack jobTechStack =
     filter (\<lambda>tech. list_ex (\<lambda>userTech. toLowerCase userTech = toLowerCase tech) userTechStack)
       jobTechStack"

text \<open>
  The sub-scores return \<open>Inl TypeError\<close> when they throw, and otherwise \<open>Inr\<close> of their
  number. \<open>calculateTechStackScore\<close> returns 0 for an empty job list before it reads the
  profile.
\<close>

definition calculateTechStackScore :: "ResumeData \<Rightarrow> int list list \<Rightarrow> error + real option" where
  "calculateTechStackScore rd jobTechStack =
     (if length jobTechStack = 0 then Inr (Some 0)
      else
        case data rd of
          None \<Rightarrow> Inl TypeError
        | Some profile \<Rightarrow>
            let userTechStack = cand_tech_stack profile;
                matches = techMatches userTechStack jobTechStack
            in Inr (map_option (\<lambda>q. q * 100)
                     (js_div (real (length matches))
                             (real (max (length jobTechStack) (length userTechStack))))))"

definition titleKeywords :: "int list list" where
  "titleKeywords =
     map str [''developer'', ''engineer'', ''software'', ''full stack'', ''backend'', ''frontend'']"

definition calculateTitleScore :: "ResumeData \<Rightarrow> int list \<Rightarrow> error + real option" where
  "calculateTitleScore rd ttl =
     (case data rd of
        None \<Rightarrow> Inl TypeError
      | Some profile \<Rightarrow>
          let userRoles = roles profile;
              titleLower = toLowerCase ttl
          in if list_ex (\<lambda>role. includesStr titleLower (toLowerCase role)) userRoles
             then Inr (Some 100)
             else
               let matches = filter (\<lambda>keyword. includesStr titleLower keyword) titleKeywords
               in Inr (map_option (\<lambda>q. q * 60)
                        (js_div (real (length matches)) (real (length titleKeywords)))))"

definition calculateLocationScore :: "ResumeData \<Rightarrow> int list \<Rightarrow> error + real" where
  "calculateLocationScore rd loc =
     (case data rd of
        None \<Rightarrow> Inl TypeError
      | Some profile \<Rightarrow>
          let userLocations = cand_location profile;
              locationLower = toLowerCase loc
          in if list_ex (\<lambda>userLocation. includesStr locationLower (toLowerCase userLocation))
                  userLocations then Inr 100
             else if includesStr locationLower (str ''remote'')
                     \<or> includesStr locationLower (str ''work from home'')
             then Inr 100
             else Inr 0)"

text \<open>
  \<open>Math.floor((now - posted) / 86400000)\<close>; \<open>None\<close> is the \<open>NaN\<close> of an invalid date,
  for which every comparison below is false.
\<close>

definition daysDiff :: "int \<Rightarrow> Date \<Rightarrow> int option" where
  "daysDiff now d = (case d of InvalidDate \<Rightarrow> None
                     | DateMs t \<Rightarrow> Some ((now - t) div (1000 * 60 * 60 * 24)))"

definition calculateRecencyScore :: "int \<Rightarrow> Date option \<Rightarrow> real" where
  "calculateRecencyScore now postedDate =
     (case postedDate of
        None \<Rightarrow> 50
      | Some d \<Rightarrow>
          (case daysDiff now d of
             None \<Rightarrow> 0
           | Some dd \<Rightarrow>
               if dd \<le> 1 then 100
               else if dd \<le> 3 then 80
               else if dd \<le> 7 then 60
               else if dd \<le> 14 then 40
               else if dd \<le> 30 then 20
               else 0))"

text \<open>
  The weighted sum of \<open>calculateJobScore\<close>, for sub-scores that are numbers; it is not a
  finite number when the tech or the title sub-score is not.
\<close>

definition weightedScore :: "real option \<Rightarrow> real option \<Rightarrow> real \<Rightarrow> real \<Rightarrow> real option" where
  "weightedScore techStackScore titleScore locationScore recencyScore =
     (case techStackScore of
        None \<Rightarrow> None
      | Some t \<Rightarrow>
          (case titleScore of
             None \<Rightarrow> None
           | Some u \<Rightarrow>
               let maxScore = 100;
                   score0 = 0 + t * 0.4;
                   score1 = score0 + u * 0.3;
                   score2 = score1 + locationScore * 0.2;
                   score3 = score2 + recencyScore * 0.1
               in Some (min score3 maxScore / maxScore)))"

definition calculateJobScore :: "ResumeData \<Rightarrow> int \<Rightarrow> JobDetails \<Rightarrow> error + real option" where
  "calculateJobScore rd now jobDetails =
     (case calculateTechStackScore rd (orEmpty (tech_stack jobDetails)) of
        Inl e \<Rightarrow> Inl e
      | Inr techStackScore \<Rightarrow>
          (case calculateTitleScore rd (title jobDetails) of
             Inl e \<Rightarrow> Inl e
           | Inr titleScore \<Rightarrow>
               (case calculateLocationScore rd (orEmpty (location jobDetails)) of
                  Inl e \<Rightarrow> Inl e
                | Inr locationScore \<Rightarrow>
                    Inr (weightedScore techStackScore titleScore locationScore
                           (calculateRecencyScore now (posted_date jobDetails))))))"

section \<open>The sub-score rules as the specification words them\<close>

text \<open>
  Two units match case-insensitively when they are equal, when one is an upper-case form
  of the other, or when both are upper-case forms of one letter; two tokens match when,
  with U+0130 written as its two units, they do so position by position.
\<close>

definition sameLetter :: "int \<Rightarrow> int \<Rightarrow> bool" where
  "sameLetter c d =
     (c = d \<or> (c, d) \<in> set caseTable \<or> (d, c) \<in> set caseTable
            \<or> list_ex (\<lambda>l. (c, l) \<in> set caseTable \<and> (d, l) \<in> set caseTable)
                 (map snd caseTable))"

definition expandDotted :: "int list \<Rightarrow> int list" where
  "expandDotted s = concat (map (\<lambda>c. if c = 304 then [105, 775] else [c]) s)"

definition ciEqual :: "int list \<Rightarrow> int list \<Rightarrow> bool" where
  "ciEqual a b = list_all2 sameLetter (expandDotted a) (expandDotted b)"

definition spec_techOverlap :: "int list list \<Rightarrow> int list list \<Rightarrow> real" where
  "spec_techOverlap jobTech profileTech =
     (if jobTech = [] then 0
      else real (length (filter (\<lambda>t. list_ex (ciEqual t) profileTech) jobTech))
             / real (max (length jobTech) (length profileTech)) * 100)"

definition genericKeywords :: "int list list" where
  "genericKeywords =
     map str [''developer'', ''engineer'', ''software'', ''full stack'', ''backend'', ''frontend'']"

definition spec_titleScore :: "int list \<Rightarrow> int list list \<Rightarrow> real" where
  "spec_titleScore ttl profileRoles =
     (if list_ex (\<lambda>role. sublist (toLowerCase role) (toLowerCase ttl)) profileRoles then 100
      else real (length (filter (\<lambda>k. sublist k (toLowerCase ttl)) genericKeywords)) / 6 * 60)"

section \<open>Fixtures\<close>

text \<open>
  The profile and the job of the worked example of the specification (a backend engineer
  in Bangalore; a remote senior backend position posted at the time of scoring), and the
  job record all of whose optional fields are missing or empty. \<open>declaredResume\<close> has the
  shape that the interface \<open>ResumeData\<close> declares; \<open>exampleResume\<close> carries the same
  profile under the key \<open>data\<close> as well.
\<close>

definition exampleCandidate :: Candidate where
  "exampleCandidate =
     \<lparr>name = str ''Candidate'', cand_location = [str ''Bangalore''], experience_years = 5,
      roles = [str ''Backend Engineer''],
      cand_tech_stack = [str ''Python'', str ''PostgreSQL'']\<rparr>"

definition declaredResume :: ResumeData where
  "declaredResume = \<lparr>candidate = exampleCandidate, data = None\<rparr>"

definition exampleResume :: ResumeData where
  "exampleResume = \<lparr>candidate = exampleCandidate, data = Some exampleCandidate\<rparr>"

definition exampleJob :: JobDetails where
  "exampleJob =
     \<lparr>title = str ''Senior Backend Engineer'', company = str ''Test Company'',
      company_url = Some (str ''test.com''), job_url = str ''https://test.com/job/123'',
      description = None, requirements = None,
      tech_stack = Some [str ''Python'', str ''PostgreSQL''], salary_range = None,
      location = Some (str ''Remote''), posted_date = Some (DateMs 0)\<rparr>"

definition emptyJob :: JobDetails where
  "emptyJob =
     \<lparr>title = [], company = [], company_url = None, job_url = [],
      description = None, requirements = None, tech_stack = None, salary_range = None,
      location = None, posted_date = None\<rparr>"

section \<open>Job matcher\<close>

text \<open>\<open>ScoredJob\<close> extends \<open>JobDetails\<close> with the score and the match reasons.\<close>

record ScoredJob = JobDetails +
  score :: real
  matchReasons :: "int list list"

text \<open>\<open>Array.prototype.join\<close> on strings.\<close>

fun join :: "int list \<Rightarrow> int list list \<Rightarrow> int list" where
  "join sep [] = []"
| "join sep [x] = x"
| "join sep (x # y # ys) = x @ sep @ join sep (y # ys)"

text \<open>
  Decimal digits of a natural number, and \<open>Number.prototype.toFixed(0)\<close> on a finite
  number below \<open>10^21\<close>: the nearest integer, the larger one on a tie, with the sign of a
  negative argument kept in front.
\<close>

definition digitChar :: "nat \<Rightarrow> int" where
  "digitChar n = 48 + int (n mod 10)"

fun natToString :: "nat \<Rightarrow> int list" where
  "natToString n =
     (if n < 10 then [digitChar n] else natToString (n div 10) @ [digitChar (n mod 10)])"

definition toFixed0 :: "real \<Rightarrow> int list" where
  "toFixed0 x =
     (if x < 0 then str ''-'' @ natToString (nat \<lfloor>- x + 1 / 2\<rfloor>)
      else natToString (nat \<lfloor>x + 1 / 2\<rfloor>))"

text \<open>
  The reasons pushed by the seven rules of \<open>generateMatchReasons\<close>, in the order in which
  the rules are evaluated, before the test \<open>reasons.length === 0\<close>.
\<close>

definition specificReasons :: "ResumeData \<Rightarrow> int \<Rightarrow> JobDetails \<Rightarrow> int list list" where
  "specificReasons rd now jobDetails =
     (let cand = candidate rd;
          jobTechStack = orEmpty (tech_stack jobDetails);
          techM = techMatches (cand_tech_stack cand) jobTechStack;
          techReason =
            (if length techM > 0
             then [str ''Tech stack match: '' @ join (str '', '') (take 3 techM)
                     @ (if length techM > 3 then str ''...'' else [])]
             else []);
          titleLower = toLowerCase (title jobDetails);
          roleMatches = filter (\<lambda>role. includesStr titleLower (toLowerCase role)) (roles cand);
          roleReason =
            (case roleMatches of [] \<Rightarrow> [] | r # _ \<Rightarrow> [str ''Role match: '' @ r]);
          locationLower = toLowerCase (orEmpty (location jobDetails));
          locationMatches =
            filter (\<lambda>loc. includesStr locationLower (toLowerCase loc)) (cand_location cand);
          locationReason =
            (case locationMatches of
               l # _ \<Rightarrow> [str ''Location match: '' @ l]
             | [] \<Rightarrow>
                 if includesStr locationLower (str ''remote'')
                    \<or> includesStr locationLower (str ''work from home'')
                 then [str ''Remote work available''] else []);
          recencyReason =
            (case posted_date jobDetails of
               None \<Rightarrow> []
             | Some d \<Rightarrow>
                 (case daysDiff now d of
                    None \<Rightarrow> []
                  | Some dd \<Rightarrow>
                      if dd \<le> 1 then [str ''Posted today'']
                      else if dd \<le> 3 then [str ''Recently posted'']
                      else []));
          descriptionLower = toLowerCase (orEmpty (description jobDetails));
          requirementsLower = toLowerCase (orEmpty (requirements jobDetails));
          fullText = descriptionLower @ str '' '' @ requirementsLower;
          levelReason =
            (if includesStr fullText (str ''senior'') \<and> experience_years cand \<ge> 5
             then [str ''Senior level match'']
             else if includesStr fullText (str ''mid-level'') \<and> experience_years cand \<ge> 3
             then [str ''Mid-level match'']
             else []);
          salaryReason =
            (if orEmpty (salary_range jobDetails) \<noteq> []
             then [str ''Salary information available''] else []);
          startupReason =
            (if includesStr fullText (str ''startup'') \<or> includesStr fullText (str ''early stage'')
             then [str ''Startup opportunity''] else [])
      in techReason @ roleReason @ locationReason @ recencyReason @ levelReason
           @ salaryReason @ startupReason)"

definition fallbackReason :: "real \<Rightarrow> int list" where
  "fallbackReason s = str ''Overall match score: '' @ toFixed0 (s * 100) @ str ''%''"

definition generateMatchReasons :: "ResumeData \<Rightarrow> int \<Rightarrow> JobDetails \<Rightarrow> real \<Rightarrow> int list list" where
  "generateMatchReasons rd now jobDetails s =
     (let reasons = specificReasons rd now jobDetails
      in if length reasons = 0 then reasons @ [fallbackReason s] else reasons)"

text \<open>
  \<open>scoreJob\<close> reads the clock twice: \<open>new Date()\<close> in the recency score and \<open>Date.now()\<close>
  in the reasons. It throws when the scorer throws; the result \<open>Inr None\<close> stands for a
  score that is not a finite number.
\<close>

definition scoreJob :: "ResumeData \<Rightarrow> int \<times> int \<Rightarrow> JobDetails \<Rightarrow> error + ScoredJob option" where
  "scoreJob rd nows jobDetails =
     (case calculateJobScore rd (fst nows) jobDetails of
        Inl e \<Rightarrow> Inl e
      | Inr None \<Rightarrow> Inr None
      | Inr (Some s) \<Rightarrow>
          Inr (Some
            \<lparr>title = title jobDetails, company = company jobDetails,
             company_url = company_url jobDetails, job_url = job_url jobDetails,
             description = description jobDetails, requirements = requirements jobDetails,
             tech_stack = tech_stack jobDetails, salary_range = salary_range jobDetails,
             location = location jobDetails, posted_date = posted_date jobDetails,
             score = s,
             matchReasons = generateMatchReasons rd (snd nows) jobDetails s\<rparr>))"

text \<open>
  \<open>Array.prototype.sort\<close> with a comparator is a stable sort: an element is placed before
  the first element of the sorted rest that it does not have to follow.
\<close>

fun insertBy :: "('a \<Rightarrow> 'a \<Rightarrow> real) \<Rightarrow> 'a \<Rightarrow> 'a list \<Rightarrow> 'a list" where
  "insertBy cmp x [] = [x]"
| "insertBy cmp x (y # ys) = (if cmp x y \<le> 0 then x # y # ys else y # insertBy cmp x ys)"

definition jsSort :: "('a \<Rightarrow> 'a \<Rightarrow> real) \<Rightarrow> 'a list \<Rightarrow> 'a list" where
  "jsSort cmp xs = foldr (insertBy cmp) xs []"

text \<open>
  The jobs are scored in input order; \<open>clock i\<close> gives the two clock readings taken while
  job \<open>i\<close> is scored. The first job on which the scorer throws ends the batch with that
  error; otherwise the batch has a result when every score is a finite number.
\<close>

fun scoreAll :: "ResumeData \<Rightarrow> (nat \<Rightarrow> int \<times> int) \<Rightarrow> nat \<Rightarrow> JobDetails list \<Rightarrow> error + ScoredJob list option" where
  "scoreAll rd clock i [] = Inr (Some [])"
| "scoreAll rd clock i (job # jobs) =
     (case scoreJob rd (clock i) job of
        Inl e \<Rightarrow> Inl e
      | Inr r \<Rightarrow>
          (case scoreAll rd clock (Suc i) jobs of
             Inl e \<Rightarrow> Inl e
           | Inr rs \<Rightarrow>
               (case r of
                  None \<Rightarrow> Inr None
                | Some sj \<Rightarrow> Inr (map_option (\<lambda>sjs. sj # sjs) rs))))"

definition scoreMultipleJobs :: "ResumeData \<Rightarrow> (nat \<Rightarrow> int \<times> int) \<Rightarrow> JobDetails list \<Rightarrow> error + ScoredJob list option" where
  "scoreMultipleJobs rd clock jobs =
     (case scoreAll rd clock 0 jobs of
        Inl e \<Rightarrow> Inl e
      | Inr r \<Rightarrow> Inr (map_option (jsSort (\<lambda>a b. score b - score a)) r))"

text \<open>
  \<open>xs.slice(0, end)\<close> for an integer \<open>end\<close>: a negative \<open>end\<close> counts from the end of the
  array. (A \<open>NaN\<close> end behaves as 0.)
\<close>

definition sliceTo :: "'a list \<Rightarrow> int \<Rightarrow> 'a list" where
  "sliceTo xs e =
     (let len = int (length xs);
          final = (if e < 0 then max (len + e) 0 else min e len)
      in take (nat final) xs)"

text \<open>
  \<open>selectTopJobs\<close>, with its parameter \<open>count\<close> written \<open>cnt\<close>. The threshold \<open>minScore\<close>
  is read from the process environment by \<open>parseFloat\<close>; it is \<open>None\<close> when that yields
  \<open>NaN\<close>, for which \<open>>=\<close> is false.
\<close>

definition selectTopJobs :: "ScoredJob list \<Rightarrow> int \<Rightarrow> real option \<Rightarrow> ScoredJob list" where
  "selectTopJobs scoredJobs cnt minScore =
     (let qualifiedJobs =
            filter (\<lambda>job. case minScore of None \<Rightarrow> False | Some m \<Rightarrow> score job \<ge> m) scoredJobs
      in if length qualifiedJobs = 0 then sliceTo scoredJobs cnt
         else sliceTo qualifiedJobs cnt)"

subsection \<open>Report\<close>

text \<open>
  The counting objects are association lists in insertion order (the enumeration order
  of \<open>Object.entries\<close> for keys that are neither array indices nor names of properties
  inherited from \<open>Object.prototype\<close>).
\<close>

fun bump :: "int list \<Rightarrow> (int list \<times> nat) list \<Rightarrow> (int list \<times> nat) list" where
  "bump k [] = [(k, 1)]"
| "bump k ((k', n) # kvs) = (if k = k' then (k', n + 1) # kvs else (k', n) # bump k kvs)"

definition countAll :: "int list list \<Rightarrow> (int list \<times> nat) list" where
  "countAll ks = foldl (\<lambda>acc k. bump k acc) [] ks"

definition topTen :: "(int list \<times> nat) list \<Rightarrow> int list list" where
  "topTen entries =
     map fst (sliceTo (jsSort (\<lambda>a b. real (snd b) - real (snd a)) entries) 10)"

record ScoreDistribution =
  excellent :: nat
  good :: nat
  fair :: nat
  poor :: nat

record JobReport =
  totalJobs :: nat
  averageScore :: "real option"
  topTechStack :: "int list list"
  topCompanies :: "int list list"
  locationDistribution :: "(int list \<times> nat) list"
  scoreDistribution :: ScoreDistribution

definition generateJobReport :: "ScoredJob list \<Rightarrow> JobReport" where
  "generateJobReport scoredJobs =
     (if length scoredJobs = 0
      then \<lparr>totalJobs = 0, averageScore = Some 0, topTechStack = [], topCompanies = [],
            locationDistribution = [],
            scoreDistribution = \<lparr>excellent = 0, good = 0, fair = 0, poor = 0\<rparr>\<rparr>
      else
        let average =
              js_div (foldl (\<lambda>sum job. sum + score job) 0 scoredJobs)
                     (real (length scoredJobs));
            techStackCount = countAll (concat (map (\<lambda>job. orEmpty (tech_stack job)) scoredJobs));
            companyCount = countAll (map company scoredJobs);
            locations =
              countAll (map (\<lambda>job. if orEmpty (location job) = [] then str ''Unknown''
                                      else orEmpty (location job)) scoredJobs);
            distribution =
              \<lparr>excellent = length (filter (\<lambda>job. score job > 0.8) scoredJobs),
               good = length (filter (\<lambda>job. score job > 0.6 \<and> score job \<le> 0.8) scoredJobs),
               fair = length (filter (\<lambda>job. score job > 0.4 \<and> score job \<le> 0.6) scoredJobs),
               poor = length (filter (\<lambda>job. score job \<le> 0.4) scoredJobs)\<rparr>
        in \<lparr>totalJobs = length scoredJobs, averageScore = average,
            topTechStack = topTen techStackCount, topCompanies = topTen companyCount,
            locationDistribution = locations, scoreDistribution = distribution\<rparr>)"

text \<open>
  A scored record with a given URL and score, for the selection examples, and a clock
  that stands still.
\<close>

definition scoredRecord :: "int list \<Rightarrow> real \<Rightarrow> ScoredJob" where
  "scoredRecord url s =
     \<lparr>title = str ''Backend Engineer'', company = str ''StartupXYZ'', company_url = None,
      job_url = url, description = None, requirements = None, tech_stack = None,
      salary_range = None, location = None, posted_date = None,
      score = s, matchReasons = [fallbackReason s]\<rparr>"

definition frozenClock :: "nat \<Rightarrow> int \<times> int" where
  "frozenClock i = (0, 0)"

text \<open>
  A batch of two records without fields, the first with a posted date at time 0, and a
  clock that stands ten days later. \<open>rankedUrls\<close> reads the order off a result.
\<close>

definition agingBatch :: "JobDetails list" where
  "agingBatch =
     [emptyJob\<lparr>job_url := str ''a'', posted_date := Some (DateMs 0)\<rparr>,
      emptyJob\<lparr>job_url := str ''b''\<rparr>]"

definition laterClock :: "nat \<Rightarrow> int \<times> int" where
  "laterClock i = (864000000, 864000000)"

definition rankedUrls :: "error + ScoredJob list option \<Rightarrow> error + int list list option" where
  "rankedUrls r = map_sum id (map_option (map job_url)) r"

section \<open>Field extractor (parser)\<close>

text \<open>
  White space of \<open>trim\<close> and of the regular-expression class \<open>\s\<close>: the units U+0009 to
  U+000D, U+0020, U+00A0, U+1680, U+2000 to U+200A, U+2028, U+2029, U+202F, U+205F, U+3000
  and U+FEFF. \<open>String.prototype.substring\<close> clamps both indices to the string and swaps
  them when they are out of order.
\<close>

definition isWhiteSpace :: "int \<Rightarrow> bool" where
  "isWhiteSpace c =
     (c \<in> set [9, 10, 11, 12, 13, 32, 160, 5760, 8232, 8233, 8239, 8287, 12288, 65279]
      \<or> (8192 \<le> c \<and> c \<le> 8202))"

definition trim :: "int list \<Rightarrow> int list" where
  "trim s = rev (dropWhile isWhiteSpace (rev (dropWhile isWhiteSpace s)))"

definition substring :: "int list \<Rightarrow> int \<Rightarrow> int \<Rightarrow> int list" where
  "substring s a b =
     (let len = int (length s);
          a' = min (max a 0) len;
          b' = min (max b 0) len;
          from = min a' b';
          to = max a' b'
      in take (nat (to - from)) (drop (nat from) s))"

subsection \<open>Tech stack\<close>

definition commonTechnologies :: "int list list" where
  "commonTechnologies =
     [str ''JavaScript'', str ''HTML'', str ''CSS'', str ''SQL'', str ''Git'', str ''Docker'', str ''Kubernetes'',
      str ''Angular'', str ''Vue.js'', str ''Express.js'', str ''Django'', str ''Flask'', str ''Spring'', str ''Laravel'',
      str ''Ruby on Rails'', str ''PHP'', str ''C++'', str ''C#'', str ''Java'', str ''Go'', str ''Rust'', str ''Swift'',
      str ''Kotlin'', str ''Flutter'', str ''React Native'', str ''Unity'', str ''TensorFlow'', str ''PyTorch'',
      str ''Pandas'', str ''NumPy'', str ''Scikit-learn'', str ''Elasticsearch'', str ''Kafka'', str ''RabbitMQ'',
      str ''Nginx'', str ''Apache'', str ''Jenkins'', str ''GitLab CI'', str ''GitHub Actions'', str ''Terraform'',
      str ''Ansible'']"

text \<open>\<open>[...new Set(xs)]\<close> keeps the first occurrence of every element, in order.\<close>

definition dedupe :: "'a list \<Rightarrow> 'a list" where
  "dedupe xs = rev (remdups (rev xs))"

text \<open>
  \<open>extractTechStack\<close> spreads the tech stack of the profile, read under \<open>data\<close>, in front
  of the catalogue, and throws when the resume has no such key.
\<close>

definition extractTechStack :: "ResumeData \<Rightarrow> int list \<Rightarrow> error + int list list" where
  "extractTechStack rd text =
     (case data rd of
        None \<Rightarrow> Inl TypeError
      | Some profile \<Rightarrow>
          let allTechStack = cand_tech_stack profile @ commonTechnologies;
              foundTech =
                filter (\<lambda>tech. includesStr (toLowerCase text) (toLowerCase tech)) allTechStack
          in Inr (dedupe foundTech))"

subsection \<open>Requirements\<close>

definition requirementSections :: "int list list" where
  "requirementSections =
     [str ''requirements:'', str ''qualifications:'', str ''what we're looking for:'',
      str ''you should have:'', str ''minimum requirements:'', str ''required skills:'', str ''must have:'']"

text \<open>The loop over the section headers, returning at the first header found.\<close>

fun findSection :: "int list \<Rightarrow> int list \<Rightarrow> int list list \<Rightarrow> int list" where
  "findSection text lowerText [] = []"
| "findSection text lowerText (section # rest) =
     (let index = indexOf lowerText section
      in if index \<noteq> -1
         then
           let startIndex = index + int (length section);
               endIndex = min (startIndex + 1000) (int (length text))
           in trim (substring text startIndex endIndex)
         else findSection text lowerText rest)"

definition extractRequirements :: "int list \<Rightarrow> int list" where
  "extractRequirements text = findSection text (toLowerCase text) requirementSections"

subsection \<open>Posted date\<close>

text \<open>
  The six date patterns are sequences of four kinds of items: a literal matched without
  regard to case, \<open>\s+\<close>, the group \<open>(\d+)\<close>, and an optional letter. Under the flag \<open>i\<close>
  a letter of a pattern matches its two ASCII forms and no other unit (\<open>asciiFold\<close>). In
  each pattern the item after a repetition cannot start with a unit of the repeated
  class, so the greedy match without backtracking decides whether the pattern matches at a
  position.
\<close>

datatype item = Lit "int list" | Spaces | Digits | Opt int

definition isDigit :: "int \<Rightarrow> bool" where
  "isDigit c = (48 \<le> c \<and> c \<le> 57)"

text \<open>
  \<open>matchItems\<close> matches at the start of the string and returns the length of the match
  and the text of the group (empty when the pattern has none).
\<close>

fun matchItems :: "item list \<Rightarrow> int list \<Rightarrow> (nat \<times> int list) option" where
  "matchItems [] s = Some (0, [])"
| "matchItems (Lit l # items) s =
     (if map asciiFold (take (length l) s) = l
      then map_option (\<lambda>(n, g). (length l + n, g)) (matchItems items (drop (length l) s))
      else None)"
| "matchItems (Spaces # items) s =
     (let ws = takeWhile isWhiteSpace s
      in if ws = [] then None
         else map_option (\<lambda>(n, g). (length ws + n, g))
                (matchItems items (dropWhile isWhiteSpace s)))"
| "matchItems (Digits # items) s =
     (let ds = takeWhile isDigit s
      in if ds = [] then None
         else map_option (\<lambda>(n, g). (length ds + n, ds))
                (matchItems items (dropWhile isDigit s)))"
| "matchItems (Opt c # items) s =
     (case s of
        [] \<Rightarrow> matchItems items s
      | x # xs \<Rightarrow>
          if asciiFold x = c then map_option (\<lambda>(n, g). (Suc n, g)) (matchItems items xs)
          else matchItems items s)"

text \<open>\<open>text.match(pattern)\<close>: the leftmost match, as the matched text and the group.\<close>

fun matchPattern :: "item list \<Rightarrow> int list \<Rightarrow> (int list \<times> int list) option" where
  "matchPattern items [] =
     map_option (\<lambda>(n, g). ([], g)) (matchItems items [])"
| "matchPattern items (c # cs) =
     (case matchItems items (c # cs) of
        Some (n, g) \<Rightarrow> Some (take n (c # cs), g)
      | None \<Rightarrow> matchPattern items cs)"

definition datePatterns :: "item list list" where
  "datePatterns =
     [[Lit (str ''posted''), Spaces, Digits, Spaces, Lit (str ''day''), Opt 115, Spaces, Lit (str ''ago'')],
      [Digits, Spaces, Lit (str ''day''), Opt 115, Spaces, Lit (str ''ago'')],
      [Lit (str ''posted''), Spaces, Digits, Spaces, Lit (str ''hour''), Opt 115, Spaces, Lit (str ''ago'')],
      [Digits, Spaces, Lit (str ''hour''), Opt 115, Spaces, Lit (str ''ago'')],
      [Lit (str ''posted''), Spaces, Lit (str ''today'')],
      [Lit (str ''posted''), Spaces, Lit (str ''yesterday'')]]"

text \<open>
  \<open>parseInt\<close> on a string of decimal digits, as an exact integer. (A value beyond the
  exact range of a double shifts a present-day date out of the representable range in
  either arithmetic.)
\<close>

definition digitValue :: "int \<Rightarrow> int" where
  "digitValue c = (if isDigit c then c - 48 else 0)"

definition parseDigits :: "int list \<Rightarrow> int" where
  "parseDigits ds = foldl (\<lambda>acc c. 10 * acc + digitValue c) 0 ds"

text \<open>
  Shifting a date by an amount of milliseconds, as \<open>setDate\<close> and \<open>setHours\<close> do in a
  time zone without clock changes; a time value beyond \<open>8.64e15\<close> milliseconds is
  not representable and makes the date invalid.
\<close>

definition shiftDate :: "int \<Rightarrow> int \<Rightarrow> Date" where
  "shiftDate t delta =
     (if \<bar>t - delta\<bar> \<le> 8640000000000000 then DateMs (t - delta) else InvalidDate)"

fun findDate :: "int \<Rightarrow> int list \<Rightarrow> item list list \<Rightarrow> Date option" where
  "findDate now text [] = None"
| "findDate now text (pattern # rest) =
     (case matchPattern pattern text of
        None \<Rightarrow> findDate now text rest
      | Some (m, g) \<Rightarrow>
          if includesStr (toLowerCase m) (str ''today'') then Some (DateMs now)
          else if includesStr (toLowerCase m) (str ''yesterday'')
          then Some (shiftDate now (1000 * 60 * 60 * 24))
          else if g \<noteq> []
          then
            let v = parseDigits g
            in if includesStr (toLowerCase m) (str ''hour'')
               then Some (shiftDate now (v * (1000 * 60 * 60)))
               else Some (shiftDate now (v * (1000 * 60 * 60 * 24)))
          else findDate now text rest)"

definition extractPostedDate :: "int \<Rightarrow> int list \<Rightarrow> Date option" where
  "extractPostedDate now text = findDate now text datePatterns"

subsection \<open>The page and the record\<close>

text \<open>
  What the extractor reads of a loaded page: its URL and host name, for each selector the
  text content of the first matching element (\<open>None\<close> when no element matches), and the
  inner text of the body. \<open>evaluates\<close> is false when waiting for the page or evaluating the
  script in it throws.
\<close>

record Page =
  pageUrl :: "int list"
  hostname :: "int list"
  evaluates :: bool
  querySelector :: "int list \<Rightarrow> int list option"
  innerText :: "int list"

definition titleSelectors :: "int list list" where
  \<open>titleSelectors =
     [str ''h1[data-testid*="job-title"]'', str ''h1[class*="job-title"]'', str ''h1[class*="jobTitle"]'',
      str ''.job-title h1'', str ''.jobsearch-JobInfoHeader-title'', str ''[data-testid="job-title"]'',
      str ''h1'']\<close>

definition companySelectors :: "int list list" where
  \<open>companySelectors =
     [str ''[data-testid*="company"]'', str ''.company-name'', str ''.jobsearch-InlineCompanyRating'',
      str ''[class*="company"]'', str ''a[data-testid="company-name"]'']\<close>

definition descriptionSelectors :: "int list list" where
  \<open>descriptionSelectors =
     [str ''[data-testid="job-description"]'', str ''.job-description'',
      str ''.jobsearch-jobDescriptionText'', str ''[class*="description"]'', str ''#job-description'']\<close>

definition locationSelectors :: "int list list" where
  \<open>locationSelectors =
     [str ''[data-testid*="location"]'', str ''.location'', str ''.jobsearch-JobInfoHeader-subtitle'',
      str ''[class*="location"]'']\<close>

definition salarySelectors :: "int list list" where
  \<open>salarySelectors =
     [str ''[data-testid*="salary"]'', str ''.salary'', str ''[class*="salary"]'',
      str ''[class*="compensation"]'']\<close>

text \<open>
  \<open>findBySelectors\<close> returns the text content of the first element, in the order of the
  selectors, whose trimmed text is not empty.
\<close>

fun findBySelectors :: "(int list \<Rightarrow> int list option) \<Rightarrow> int list list \<Rightarrow> int list option" where
  "findBySelectors q [] = None"
| "findBySelectors q (selector # selectors) =
     (case q selector of
        None \<Rightarrow> findBySelectors q selectors
      | Some txt \<Rightarrow> if trim txt \<noteq> [] then Some txt else findBySelectors q selectors)"

text \<open>\<open>element?.textContent?.trim() || ""\<close>\<close>

definition fieldText :: "Page \<Rightarrow> int list list \<Rightarrow> int list" where
  "fieldText page selectors =
     (case findBySelectors (querySelector page) selectors of
        None \<Rightarrow> [] | Some txt \<Rightarrow> trim txt)"

text \<open>\<open>s || undefined\<close>\<close>

definition orUndefined :: "int list \<Rightarrow> int list option" where
  "orUndefined s = (if s = [] then None else Some s)"

text \<open>
  \<open>extractJobDetails\<close> returns \<open>None\<close> for \<open>null\<close>. Its \<open>catch\<close> turns every exception of
  the body into \<open>null\<close>: that of a page that cannot be evaluated, and the \<open>TypeError\<close> of
  \<open>extractTechStack\<close>, which runs after the test of the title and the company.
\<close>

definition extractJobDetails :: "ResumeData \<Rightarrow> int \<Rightarrow> Page \<Rightarrow> JobDetails option" where
  "extractJobDetails rd now page =
     (if \<not> evaluates page then None
      else
        let url = pageUrl page;
            ttl = fieldText page titleSelectors;
            comp = fieldText page companySelectors;
            desc = fieldText page descriptionSelectors;
            loc = fieldText page locationSelectors;
            salary = fieldText page salarySelectors;
            companyUrl = hostname page;
            fullText = innerText page
        in if ttl = [] \<or> comp = [] then None
           else
             (case extractTechStack rd fullText of
                Inl e \<Rightarrow> None
              | Inr techStack \<Rightarrow>
                  let reqs = extractRequirements fullText;
                      postedDate = extractPostedDate now fullText
                  in Some \<lparr>title = ttl, company = comp, company_url = Some companyUrl,
                           job_url = url, description = Some desc, requirements = Some reqs,
                           tech_stack = Some techStack, salary_range = orUndefined salary,
                           location = orUndefined loc, posted_date = postedDate\<rparr>))"

text \<open>
  A page on which only the generic \<open>h1\<close> selector resolves, so that the title is found
  and the company is not; and a page of a job board with both.
\<close>

definition titleOnlyPage :: Page where
  "titleOnlyPage =
     \<lparr>pageUrl = str ''https://jobs.example.com/1'', hostname = str ''jobs.example.com'',
      evaluates = True,
      querySelector = (\<lambda>sel. if sel = str ''h1'' then Some (str ''Backend Engineer'') else None),
      innerText = str ''Backend Engineer''\<rparr>"

definition boardPage :: Page where
  "boardPage =
     \<lparr>pageUrl = str ''https://jobs.example.com/2'', hostname = str ''jobs.example.com'',
      evaluates = True,
      querySelector =
        (\<lambda>sel. if sel = str ''h1'' then Some (str ''  Backend Engineer '')
               else if sel = str ''.company-name'' then Some (str ''Acme'') else None),
      innerText = str ''Backend Engineer at Acme. Requirements:  Python. Posted 2 days ago''\<rparr>"

text \<open>
  A page text that starts with the unit U+0130: \<open>Istanbul\<close> written with a dotted capital
  I, followed by a requirements section.
\<close>

definition dottedText :: "int list" where
  "dottedText = 304 # str ''stanbul. Requirements:Python''"

section \<open>Persistence (repository)\<close>

text \<open>
  The repository is modelled on a reachable database, in which a query fails only when
  the schema of \<open>init.sql\<close> refuses its row. The session table is keyed by its serial
  primary key; the listing table is the list of its rows, with \<open>job_url\<close> unique.
\<close>

datatype SessionStatus = Running | Completed | Failed

record ScrapingSession =
  search_queries :: "int list list"
  status :: SessionStatus
  total_jobs_found :: nat
  top_jobs_selected :: nat
  completed_at :: "int option"
  error_message :: "error option"

text \<open>The partial object passed to \<open>updateSession\<close>; \<open>None\<close> is an absent key.\<close>

record SessionUpdates =
  new_total_jobs_found :: "nat option"
  new_top_jobs_selected :: "nat option"
  new_status :: "SessionStatus option"
  new_completed_at :: "int option"
  new_error_message :: "error option"

record JobListing = JobDetails +
  listing_id :: nat
  listing_score :: real
  is_top_pick :: bool
  session_of :: nat

record Database =
  sessions :: "nat \<Rightarrow> ScrapingSession option"
  next_session_id :: nat
  job_listings :: "JobListing list"
  next_listing_id :: nat

definition createSession :: "Database \<Rightarrow> int list list \<Rightarrow> Database \<times> nat" where
  "createSession db queries =
     (let sid = next_session_id db;
          row = \<lparr>search_queries = queries, status = Running, total_jobs_found = 0,
                 top_jobs_selected = 0, completed_at = None, error_message = None\<rparr>
      in (db\<lparr>sessions := (sessions db)(sid \<mapsto> row), next_session_id := Suc sid\<rparr>, sid))"

definition applyUpdates :: "SessionUpdates \<Rightarrow> ScrapingSession \<Rightarrow> ScrapingSession" where
  "applyUpdates u row =
     row\<lparr>total_jobs_found :=
           (case new_total_jobs_found u of None \<Rightarrow> total_jobs_found row | Some v \<Rightarrow> v),
         top_jobs_selected :=
           (case new_top_jobs_selected u of None \<Rightarrow> top_jobs_selected row | Some v \<Rightarrow> v),
         status := (case new_status u of None \<Rightarrow> status row | Some v \<Rightarrow> v),
         completed_at :=
           (case new_completed_at u of None \<Rightarrow> completed_at row | Some v \<Rightarrow> Some v),
         error_message :=
           (case new_error_message u of None \<Rightarrow> error_message row | Some v \<Rightarrow> Some v)\<rparr>"

definition updateSession :: "Database \<Rightarrow> nat \<Rightarrow> SessionUpdates \<Rightarrow> Database" where
  "updateSession db sid u =
     (case sessions db sid of
        None \<Rightarrow> db
      | Some row \<Rightarrow> db\<lparr>sessions := (sessions db)(sid \<mapsto> applyUpdates u row)\<rparr>)"

text \<open>
  What the columns of \<open>job_listings\<close> accept. A text value must not contain the unit 0.
  \<open>VARCHAR(n)\<close> counts characters, a surrogate pair being one character, and accepts a
  longer value only when the characters in excess are all spaces. \<open>DATE\<close> refuses an
  invalid date and a day before 24 November 4714 BC (time values read in UTC);
  \<open>DECIMAL(3,2)\<close> refuses a number that rounds to 10 or more in absolute value.
\<close>

fun codePoints :: "int list \<Rightarrow> int list" where
  "codePoints [] = []"
| "codePoints [c] = [c]"
| "codePoints (c # d # cs) =
     (if 55296 \<le> c \<and> c \<le> 56319 \<and> 56320 \<le> d \<and> d \<le> 57343
      then (65536 + (c - 55296) * 1024 + (d - 56320)) # codePoints cs
      else c # codePoints (d # cs))"

definition fitsText :: "int list \<Rightarrow> bool" where
  "fitsText s = (0 \<notin> set s)"

definition fitsVarchar :: "nat \<Rightarrow> int list \<Rightarrow> bool" where
  "fitsVarchar n s = (fitsText s \<and> list_all (\<lambda>c. c = 32) (drop n (codePoints s)))"

definition fitsDate :: "Date \<Rightarrow> bool" where
  "fitsDate d = (case d of InvalidDate \<Rightarrow> False | DateMs t \<Rightarrow> - 210866803200000 \<le> t)"

definition whenPresent :: "('a \<Rightarrow> bool) \<Rightarrow> 'a option \<Rightarrow> bool" where
  "whenPresent ok x = (case x of None \<Rightarrow> True | Some v \<Rightarrow> ok v)"

definition accepts :: "ScoredJob \<Rightarrow> bool" where
  "accepts sj =
     (fitsVarchar 255 (title sj) \<and> fitsVarchar 255 (company sj)
      \<and> whenPresent (fitsVarchar 500) (company_url sj)
      \<and> fitsVarchar 500 (job_url sj)
      \<and> whenPresent fitsText (description sj)
      \<and> whenPresent fitsText (requirements sj)
      \<and> whenPresent (list_all fitsText) (tech_stack sj)
      \<and> whenPresent (fitsVarchar 100) (salary_range sj)
      \<and> whenPresent (fitsVarchar 255) (location sj)
      \<and> whenPresent fitsDate (posted_date sj)
      \<and> \<bar>score sj\<bar> < 9.995)"

text \<open>
  \<open>convertToJobListing\<close> followed by \<open>insertJobListing\<close>: an insert that, on a row with
  the same \<open>job_url\<close>, updates title, company, description and score of that row. The
  query throws, and leaves the table as it is, when the schema refuses the row. The
  serial key is drawn for every row inserted or updated.
\<close>

definition toListing :: "ScoredJob \<Rightarrow> nat \<Rightarrow> nat \<Rightarrow> JobListing" where
  "toListing sj sid lid =
     \<lparr>title = title sj, company = company sj, company_url = company_url sj,
      job_url = job_url sj, description = description sj, requirements = requirements sj,
      tech_stack = tech_stack sj, salary_range = salary_range sj, location = location sj,
      posted_date = posted_date sj,
      listing_id = lid, listing_score = score sj, is_top_pick = False, session_of = sid\<rparr>"

definition insertJobListing :: "Database \<Rightarrow> ScoredJob \<Rightarrow> nat \<Rightarrow> Database \<times> (error + nat)" where
  "insertJobListing db sj sid =
     (if \<not> accepts sj then (db, Inl PersistenceError)
      else
        let lid = next_listing_id db;
            db' = db\<lparr>next_listing_id := Suc lid\<rparr>
        in case find (\<lambda>row. job_url row = job_url sj) (job_listings db) of
             None \<Rightarrow> (db'\<lparr>job_listings := job_listings db @ [toListing sj sid lid]\<rparr>, Inr lid)
           | Some old \<Rightarrow>
               (db'\<lparr>job_listings :=
                      map (\<lambda>row. if job_url row = job_url sj
                                  then row\<lparr>title := title sj, company := company sj,
                                           description := description sj,
                                           listing_score := score sj\<rparr>
                                  else row) (job_listings db)\<rparr>,
                Inr (listing_id old)))"

text \<open>The loops that insert the rows one by one; the first query that throws ends them.\<close>

fun insertAll :: "Database \<Rightarrow> ScoredJob list \<Rightarrow> nat \<Rightarrow> Database \<times> (error + nat list)" where
  "insertAll db [] sid = (db, Inr [])"
| "insertAll db (sj # sjs) sid =
     (case insertJobListing db sj sid of
        (db1, Inl e) \<Rightarrow> (db1, Inl e)
      | (db1, Inr lid) \<Rightarrow>
          (case insertAll db1 sjs sid of
             (db2, Inl e) \<Rightarrow> (db2, Inl e)
           | (db2, Inr lids) \<Rightarrow> (db2, Inr (lid # lids))))"

definition markTopPicks :: "Database \<Rightarrow> nat list \<Rightarrow> Database" where
  "markTopPicks db jobIds =
     db\<lparr>job_listings :=
          map (\<lambda>row. if listing_id row \<in> set jobIds then row\<lparr>is_top_pick := True\<rparr> else row)
            (job_listings db)\<rparr>"

section \<open>Browser manager and search\<close>

text \<open>
  The browser manager holds the open contexts and refuses a new one at the concurrency
  limit. Visiting a URL either fails before a context is registered, or fails after it
  (opening the page or navigating throws, and the context stays open), or loads a page;
  closing the context of a loaded page may fail silently, which also leaves it open.
\<close>

record Browser =
  initialized :: bool
  openContexts :: nat
  maxConcurrency :: nat

datatype PageOutcome = ContextFails | NavigationFails | PageLoaded Page bool

record GoogleSearchResult =
  result_title :: "int list"
  url :: "int list"
  snippet :: "int list"
  site :: "int list"

text \<open>
  The search for one role launches the browser, opens a context and a page, searches
  the sites and closes the context. It throws when the launch fails, when no context
  is registered, or after the context is registered (which then stays open); otherwise it
  returns its results, and its context is closed or stays open.
\<close>

datatype RoleOutcome =
  LaunchFails | NoContext | SearchThrows | SearchReturns "GoogleSearchResult list" bool

text \<open>
  The surroundings of one run: the outcome of the search for each role and of visiting
  each URL, the clock, and the two settings read from the process environment.
\<close>

record Environment =
  searchRole :: "int list \<Rightarrow> RoleOutcome"
  visit :: "int list \<Rightarrow> PageOutcome"
  parseClock :: "int list \<Rightarrow> int"
  scoringClock :: "nat \<Rightarrow> int \<times> int"
  finishClock :: int
  topJobsCount :: int
  minScoreThreshold :: "real option"

definition searchJobsForRole :: "Environment \<Rightarrow> Browser \<Rightarrow> int list \<Rightarrow> Browser \<times> (error + GoogleSearchResult list)" where
  "searchJobsForRole env br role =
     (case searchRole env role of
        LaunchFails \<Rightarrow> (br, Inl BrowserError)
      | outcome \<Rightarrow>
          let br1 = br\<lparr>initialized := True\<rparr>
          in if openContexts br1 \<ge> maxConcurrency br1 then (br1, Inl BrowserError)
             else
               (case outcome of
                  SearchReturns results closes \<Rightarrow>
                    (if closes then br1 else br1\<lparr>openContexts := Suc (openContexts br1)\<rparr>,
                     Inr results)
                | SearchThrows \<Rightarrow> (br1\<lparr>openContexts := Suc (openContexts br1)\<rparr>, Inl BrowserError)
                | _ \<Rightarrow> (br1, Inl BrowserError)))"

text \<open>The loop of \<open>searchAllRoles\<close> over the roles, whose \<open>catch\<close> skips a role that throws.\<close>

fun searchRoles :: "Environment \<Rightarrow> Browser \<Rightarrow> int list list \<Rightarrow> Browser \<times> GoogleSearchResult list" where
  "searchRoles env br [] = (br, [])"
| "searchRoles env br (role # rest) =
     (let (br1, roleResults) = searchJobsForRole env br role;
          (br2, allResults) = searchRoles env br1 rest
      in (br2, (case roleResults of Inl e \<Rightarrow> [] | Inr results \<Rightarrow> results) @ allResults))"

text \<open>The filter that keeps a result when no earlier result has its URL.\<close>

fun uniqueResults :: "int list list \<Rightarrow> GoogleSearchResult list \<Rightarrow> GoogleSearchResult list" where
  "uniqueResults seen [] = []"
| "uniqueResults seen (result # rest) =
     (if url result \<in> set seen then uniqueResults seen rest
      else result # uniqueResults (url result # seen) rest)"

text \<open>\<open>searchAllRoles\<close> reads the roles under \<open>data\<close>, and throws when the resume has no such key.\<close>

definition searchAllRoles :: "ResumeData \<Rightarrow> Environment \<Rightarrow> Browser \<Rightarrow> Browser \<times> (error + GoogleSearchResult list)" where
  "searchAllRoles rd env br =
     (case data rd of
        None \<Rightarrow> (br, Inl TypeError)
      | Some profile \<Rightarrow>
          let (br1, allResults) = searchRoles env br (roles profile)
          in (br1, Inr (uniqueResults [] allResults)))"

section \<open>Pipeline orchestrator\<close>

text \<open>The body of the loop over the search results, with its \<open>try\<close>/\<open>catch\<close>.\<close>

definition scrapeOne :: "ResumeData \<Rightarrow> Environment \<Rightarrow> Browser \<Rightarrow> int list \<Rightarrow> Browser \<times> JobDetails option" where
  "scrapeOne rd env br u =
     (if \<not> initialized br \<or> openContexts br \<ge> maxConcurrency br then (br, None)
      else
        case visit env u of
          ContextFails \<Rightarrow> (br, None)
        | NavigationFails \<Rightarrow> (br\<lparr>openContexts := Suc (openContexts br)\<rparr>, None)
        | PageLoaded page closes \<Rightarrow>
            (if closes then br else br\<lparr>openContexts := Suc (openContexts br)\<rparr>,
             extractJobDetails rd (parseClock env u) page))"

fun scrapeAll :: "ResumeData \<Rightarrow> Environment \<Rightarrow> Browser \<Rightarrow> GoogleSearchResult list \<Rightarrow> Browser \<times> JobDetails list" where
  "scrapeAll rd env br [] = (br, [])"
| "scrapeAll rd env br (searchResult # rest) =
     (let (br1, details) = scrapeOne rd env br (url searchResult);
          (br2, jobDetails) = scrapeAll rd env br1 rest
      in (br2, (case details of None \<Rightarrow> jobDetails | Some d \<Rightarrow> d # jobDetails)))"

record CycleResult =
  sessionId :: nat
  totalJobsFound :: nat
  topJobsSelected :: nat
  cycleAverageScore :: "real option"

text \<open>
  \<open>executeFullScrapingCycle\<close> on the browser and the database, returning their final
  state and either the result of the run or (\<open>Inl\<close>) the error it rethrows after marking
  the session failed: an exception of the search, of the scoring or of a query that
  stores the jobs. The sorted batch is absent only for a score that is not a finite
  number, in which case the model lets the run fail; no score is of that kind.
\<close>

definition failCycle :: "Browser \<Rightarrow> Database \<Rightarrow> Environment \<Rightarrow> nat \<Rightarrow> error \<Rightarrow> (Browser \<times> Database) \<times> (error + CycleResult)" where
  "failCycle br db env sid e =
     ((br, updateSession db sid
             \<lparr>new_total_jobs_found = None, new_top_jobs_selected = None,
              new_status = Some Failed, new_completed_at = Some (finishClock env),
              new_error_message = Some e\<rparr>),
      Inl e)"

text \<open>
  The steps of the cycle after the scoring: the selection, the two loops of inserts, the
  marking of the top picks and the update of the session. An insert that throws is caught
  by the \<open>catch\<close> of the cycle.
\<close>

definition storeJobs :: "Browser \<Rightarrow> Database \<Rightarrow> Environment \<Rightarrow> nat \<Rightarrow> ScoredJob list \<Rightarrow> (Browser \<times> Database) \<times> (error + CycleResult)" where
  "storeJobs br db env sid scoredJobs =
     (let topJobs = selectTopJobs scoredJobs (topJobsCount env) (minScoreThreshold env)
      in case insertAll db scoredJobs sid of
           (db2, Inl e) \<Rightarrow> failCycle br db2 env sid e
         | (db2, Inr allIds) \<Rightarrow>
             (case insertAll db2 topJobs sid of
                (db3, Inl e) \<Rightarrow> failCycle br db3 env sid e
              | (db3, Inr topJobIds) \<Rightarrow>
                  let db4 = markTopPicks db3 topJobIds;
                      db5 = updateSession db4 sid
                              \<lparr>new_total_jobs_found = Some (length scoredJobs),
                               new_top_jobs_selected = Some (length topJobs),
                               new_status = Some Completed,
                               new_completed_at = Some (finishClock env),
                               new_error_message = None\<rparr>;
                      report = generateJobReport scoredJobs
                  in ((br, db5),
                      Inr \<lparr>sessionId = sid, totalJobsFound = totalJobs report,
                           topJobsSelected = length topJobs,
                           cycleAverageScore = averageScore report\<rparr>)))"

definition executeFullScrapingCycle :: "ResumeData \<Rightarrow> Environment \<Rightarrow> Browser \<times> Database \<Rightarrow> (Browser \<times> Database) \<times> (error + CycleResult)" where
  "executeFullScrapingCycle rd env world =
     (let (db1, sid) = createSession (snd world) (roles (candidate rd))
      in case searchAllRoles rd env (fst world) of
           (br0, Inl e) \<Rightarrow> failCycle br0 db1 env sid e
         | (br0, Inr searchResults) \<Rightarrow>
             (let (br1, jobDetails) = scrapeAll rd env br0 (sliceTo searchResults 50)
              in case scoreMultipleJobs rd (scoringClock env) jobDetails of
                   Inl e \<Rightarrow> failCycle br1 db1 env sid e
                 | Inr None \<Rightarrow> failCycle br1 db1 env sid NonFiniteScore
                 | Inr (Some scoredJobs) \<Rightarrow> storeJobs br1 db1 env sid scoredJobs))"

text \<open>
  Runs in which the search yields three URLs: one in which every visit fails, one in
  which the second URL loads the page of the job board, and one in which it loads that
  page with a salary of 101 characters. The browser is launched and the database empty.
\<close>

definition searchHits :: "GoogleSearchResult list" where
  "searchHits =
     [\<lparr>result_title = str ''A'', url = str ''https://a.example/1'', snippet = [],
       site = str ''a.example''\<rparr>,
      \<lparr>result_title = str ''B'', url = str ''https://b.example/2'', snippet = [],
       site = str ''b.example''\<rparr>,
      \<lparr>result_title = str ''C'', url = str ''https://c.example/3'', snippet = [],
       site = str ''c.example''\<rparr>]"

definition deadWeb :: Environment where
  "deadWeb =
     \<lparr>searchRole = (\<lambda>role. SearchReturns searchHits True),
      visit = (\<lambda>u. if u = str ''https://a.example/1'' then ContextFails else NavigationFails),
      parseClock = (\<lambda>u. 0), scoringClock = frozenClock, finishClock = 0,
      topJobsCount = 5, minScoreThreshold = Some (3 / 10)\<rparr>"

definition oneLoads :: "Page \<Rightarrow> Environment" where
  "oneLoads page =
     deadWeb\<lparr>visit := (\<lambda>u. if u = str ''https://b.example/2'' then PageLoaded page True
                          else NavigationFails)\<rparr>"

definition longSalaryPage :: Page where
  "longSalaryPage =
     boardPage\<lparr>querySelector :=
       (\<lambda>sel. if sel = str ''.salary'' then Some (replicate 101 57)
              else querySelector boardPage sel)\<rparr>"

definition freshWorld :: "Browser \<times> Database" where
  "freshWorld =
     (\<lparr>initialized = True, openContexts = 0, maxConcurrency = 3\<rparr>,
      \<lparr>sessions = Map.empty, next_session_id = 1, job_listings = [], next_listing_id = 1\<rparr>)"

text \<open>The record that the extractor reads off the page of the job board at time 0.\<close>

definition boardRecord :: JobDetails where
  "boardRecord =
     \<lparr>title = str ''Backend Engineer'', company = str ''Acme'',
      company_url = Some (str ''jobs.example.com''),
      job_url = str ''https://jobs.example.com/2'',
      description = Some [], requirements = Some (str ''Python. Posted 2 days ago''),
      tech_stack = Some [str ''Python'', str ''Go''], salary_range = None,
      location = None, posted_date = Some (DateMs (- 172800000))\<rparr>"

section \<open>Strings: search and case folding\<close>

lemma startsWith_prefix: "startsWith s p \<longleftrightarrow> prefix p s"
  by (induction s p rule: startsWith.induct) auto

lemma indexOfFrom_absent: "indexOfFrom i s p = -1 \<longleftrightarrow> \<not> sublist p s"
  by (induction i s p rule: indexOfFrom.induct)
     (auto simp: startsWith_prefix sublist_Cons_right)

lemma includesStr_sublist: "includesStr s p \<longleftrightarrow> sublist p s"
  by (simp add: includesStr_def indexOf_def indexOfFrom_absent)

lemma includesStr_fun: "includesStr s = (\<lambda>p. sublist p s)"
  by (rule ext) (rule includesStr_sublist)

text \<open>
  Folding through a table of pairs whose keys are distinct and are not values identifies
  exactly the entries that are equal, paired by the table, or keys of one value.
\<close>

lemma table_fold_eq:
  assumes df: "distinct (map fst T)"
    and dj: "set (map fst T) \<inter> set (map snd T) = {}"
  shows "(case map_of T c of None \<Rightarrow> c | Some l \<Rightarrow> l) = (case map_of T d of None \<Rightarrow> d | Some l \<Rightarrow> l)
         \<longleftrightarrow> c = d \<or> (c, d) \<in> set T \<or> (d, c) \<in> set T
               \<or> list_ex (\<lambda>l. (c, l) \<in> set T \<and> (d, l) \<in> set T) (map snd T)"
proof -
  have fs: "\<And>x y. (x, y) \<in> set T \<Longrightarrow> x \<in> set (map fst T)" by force
  have sn: "\<And>x y. (x, y) \<in> set T \<Longrightarrow> y \<in> set (map snd T)" by force
  have ex: "list_ex (\<lambda>l. (c, l) \<in> set T \<and> (d, l) \<in> set T) (map snd T)
            \<longleftrightarrow> (\<exists>l. (c, l) \<in> set T \<and> (d, l) \<in> set T)"
    using sn by (auto simp: list_ex_iff)
  show ?thesis
  proof (cases "map_of T c")
    case None
    note cN = None
    then have c_no: "\<And>y. (c, y) \<notin> set T" by (force simp: map_of_eq_None_iff)
    show ?thesis
    proof (cases "map_of T d")
      case None
      then have "\<And>y. (d, y) \<notin> set T" by (force simp: map_of_eq_None_iff)
      with c_no cN None ex show ?thesis by auto
    next
      case (Some m)
      have "(d, c) \<in> set T \<longleftrightarrow> m = c"
        using map_of_eq_Some_iff [OF df, of d c] Some by auto
      moreover have "c \<noteq> d" using cN Some by auto
      ultimately show ?thesis using cN Some c_no ex by auto
    qed
  next
    case (Some l)
    note cS = Some
    then have cl: "(c, l) \<in> set T" by (rule map_of_SomeD)
    have c_iff: "\<And>y. (c, y) \<in> set T \<longleftrightarrow> l = y"
      using map_of_eq_Some_iff [OF df, of c] cS by auto
    show ?thesis
    proof (cases "map_of T d")
      case None
      then have "\<And>y. (d, y) \<notin> set T" by (force simp: map_of_eq_None_iff)
      moreover have "c \<noteq> d" using cS None by auto
      ultimately show ?thesis using cS None c_iff ex by auto
    next
      case (Some m)
      then have dm: "(d, m) \<in> set T" by (rule map_of_SomeD)
      have d_iff: "\<And>y. (d, y) \<in> set T \<longleftrightarrow> m = y"
        using map_of_eq_Some_iff [OF df, of d] Some by auto
      have n1: "(c, d) \<notin> set T" using dj fs [OF dm] sn by blast
      have n2: "(d, c) \<notin> set T" using dj fs [OF cl] sn by blast
      have "(\<exists>k. (c, k) \<in> set T \<and> (d, k) \<in> set T) \<longleftrightarrow> l = m"
        using c_iff d_iff by auto
      moreover have "c = d \<longrightarrow> l = m" using cS Some by auto
      ultimately show ?thesis using cS Some n1 n2 ex by auto
    qed
  qed
qed

lemma lowerSimple_sameLetter: "lowerSimple c = lowerSimple d \<longleftrightarrow> sameLetter c d"
  unfolding lowerSimple_def sameLetter_def
  by (rule table_fold_eq) (simp_all add: caseTable_def upperLetters_def lowerLetters_def str_def)

lemma lowerSimple_dotted: "lowerSimple 105 = 105" "lowerSimple 775 = 775"
  by (simp_all add: lowerSimple_def caseTable_def upperLetters_def lowerLetters_def str_def)

lemma toLowerCase_expandDotted: "toLowerCase s = map lowerSimple (expandDotted s)"
  by (induction s) (simp_all add: toLowerCase_def expandDotted_def lowerUnit_def lowerSimple_dotted)

lemma map_eq_list_all2: "map f xs = map f ys \<longleftrightarrow> list_all2 (\<lambda>x y. f x = f y) xs ys"
proof (induction xs arbitrary: ys)
  case Nil
  then show ?case by auto
next
  case (Cons x xs)
  then show ?case by (cases ys) auto
qed

lemma toLowerCase_ciEqual: "toLowerCase a = toLowerCase b \<longleftrightarrow> ciEqual a b"
  by (simp add: toLowerCase_expandDotted ciEqual_def map_eq_list_all2 lowerSimple_sameLetter)

lemma ciEqual_sym: "ciEqual a b = ciEqual b a"
  by (metis toLowerCase_ciEqual)

lemma toLowerCase_ciEqual_flip: "toLowerCase u = toLowerCase t \<longleftrightarrow> ciEqual t u"
  by (metis toLowerCase_ciEqual)

text \<open>Lower-casing keeps the positions of a string without the unit U+0130.\<close>

lemma toLowerCase_undotted: "304 \<notin> set s \<Longrightarrow> toLowerCase s = map lowerSimple s"
  by (induction s) (simp_all add: toLowerCase_def lowerUnit_def)

lemma length_toLowerCase: "304 \<notin> set s \<Longrightarrow> length (toLowerCase s) = length s"
  by (simp add: toLowerCase_undotted)

section \<open>The scorer\<close>

lemma techMatches_length: "length (techMatches u j) \<le> length j"
  by (simp add: techMatches_def)

lemma techMatches_spec: "techMatches u j = filter (\<lambda>t. list_ex (ciEqual t) u) j"
  by (simp add: techMatches_def toLowerCase_ciEqual_flip)

lemma tech_bounds:
  assumes "data rd = Some profile"
  shows "\<exists>t. calculateTechStackScore rd js = Inr (Some t) \<and> 0 \<le> t \<and> t \<le> 100"
proof (cases "js = []")
  case True
  then show ?thesis by (simp add: calculateTechStackScore_def)
next
  case False
  let ?m = "length (techMatches (cand_tech_stack profile) js)"
  let ?d = "max (length js) (length (cand_tech_stack profile))"
  from False have "0 < length js" by simp
  then have d: "0 < ?d" by linarith
  have "?m \<le> ?d" using techMatches_length [of "cand_tech_stack profile" js] by simp
  then have "real ?m / real ?d \<le> 1" using d by simp
  then have "real ?m / real ?d * 100 \<le> 1 * 100" by (rule mult_right_mono) simp
  then have "real ?m / real ?d * 100 \<le> 100" by simp
  moreover have "0 \<le> real ?m / real ?d * 100" by simp
  ultimately show ?thesis using False d assms
    by (simp add: calculateTechStackScore_def js_div_def Let_def)
qed

lemma title_bounds:
  assumes "data rd = Some profile"
  shows "\<exists>t. calculateTitleScore rd ttl = Inr (Some t) \<and> 0 \<le> t \<and> t \<le> 100"
proof -
  let ?m = "length (filter (\<lambda>keyword. includesStr (toLowerCase ttl) keyword) titleKeywords)"
  have len: "length titleKeywords = 6" by (simp add: titleKeywords_def)
  have "?m \<le> 6" using length_filter_le [of _ titleKeywords] len by simp
  then have "real ?m / 6 * 60 \<le> 100" by simp
  moreover have "0 \<le> real ?m / 6 * 60" by simp
  ultimately show ?thesis using assms
    by (simp add: calculateTitleScore_def js_div_def Let_def len)
qed

lemma location_bounds:
  assumes "data rd = Some profile"
  shows "\<exists>l. calculateLocationScore rd loc = Inr l \<and> 0 \<le> l \<and> l \<le> 100"
  using assms by (simp add: calculateLocationScore_def Let_def)

lemma recency_bounds:
  "0 \<le> calculateRecencyScore now d \<and> calculateRecencyScore now d \<le> 100"
  by (simp add: calculateRecencyScore_def split: option.splits)

lemma calculateJobScore_finite:
  assumes p: "data rd = Some profile"
  shows "\<exists>s. calculateJobScore rd now job = Inr (Some s) \<and> 0 \<le> s \<and> s \<le> 1
       \<and> calculateRecencyScore now (posted_date job) / 1000 \<le> s"
proof -
  obtain t where t: "calculateTechStackScore rd (orEmpty (tech_stack job)) = Inr (Some t)" "0 \<le> t"
    using tech_bounds [OF p] by blast
  obtain u where u: "calculateTitleScore rd (title job) = Inr (Some u)" "0 \<le> u"
    using title_bounds [OF p] by blast
  obtain l where l: "calculateLocationScore rd (orEmpty (location job)) = Inr l" "0 \<le> l"
    using location_bounds [OF p] by blast
  let ?r = "calculateRecencyScore now (posted_date job)"
  have r: "0 \<le> ?r" "?r \<le> 100" using recency_bounds by blast+
  define s where "s = min (t * 0.4 + u * 0.3 + l * 0.2 + ?r * 0.1) 100 / 100"
  have "calculateJobScore rd now job = Inr (Some s)"
    by (simp add: calculateJobScore_def weightedScore_def t(1) u(1) l(1) Let_def s_def)
  moreover have "0 \<le> s"
    using t u l r by (simp add: s_def)
  moreover have "s \<le> 1"
    by (simp add: s_def)
  moreover have "?r / 1000 \<le> s"
    using t u l r by (simp add: s_def min_def)
  ultimately show ?thesis by blast
qed

text \<open>On a resume without the key \<open>data\<close> the scorer throws for every job record.\<close>

lemma calculateJobScore_throws:
  assumes "data rd = None"
  shows "calculateJobScore rd now job = Inl TypeError"
  using assms
  by (simp add: calculateJobScore_def calculateTechStackScore_def calculateTitleScore_def)

text \<open>
  C1. On a resume that carries the profile under \<open>data\<close>, \<open>calculateJobScore\<close> returns for
  every clock reading and job record a finite number (never the \<open>None\<close> of a division by
  zero) that lies in \<open>[0,1]\<close>; the record with every optional field missing scores a
  defined value of at least 0.05. With no tech stack the tech sub-score is 0 and with no
  posted date the recency sub-score is 50. On a resume without the key \<open>data\<close>, as the
  interface \<open>ResumeData\<close> declares it, \<open>calculateJobScore\<close> throws a \<open>TypeError\<close> for every
  job record: those of the example and the all-empty one included.
\<close>

theorem calculateJobScore_range:
  "(data rd = Some profile \<longrightarrow>
      (\<exists>s. calculateJobScore rd now job = Inr (Some s) \<and> 0 \<le> s \<and> s \<le> 1)
      \<and> (\<exists>s. calculateJobScore rd now emptyJob = Inr (Some s) \<and> 1 / 20 \<le> s \<and> s \<le> 1))
   \<and> calculateTechStackScore rd (orEmpty None) = Inr (Some 0)
   \<and> calculateRecencyScore now None = 50
   \<and> (data rd = None \<longrightarrow> calculateJobScore rd now job = Inl TypeError)
   \<and> calculateJobScore declaredResume now exampleJob = Inl TypeError
   \<and> calculateJobScore declaredResume now emptyJob = Inl TypeError"
proof -
  have c: "calculateRecencyScore now None = 50"
    by (simp add: calculateRecencyScore_def)
  have e: "posted_date emptyJob = None" by (simp add: emptyJob_def)
  have a: "data rd = Some profile \<longrightarrow>
      (\<exists>s. calculateJobScore rd now job = Inr (Some s) \<and> 0 \<le> s \<and> s \<le> 1)
      \<and> (\<exists>s. calculateJobScore rd now emptyJob = Inr (Some s) \<and> 1 / 20 \<le> s \<and> s \<le> 1)"
  proof
    assume p: "data rd = Some profile"
    have "\<exists>s. calculateJobScore rd now job = Inr (Some s) \<and> 0 \<le> s \<and> s \<le> 1"
      using calculateJobScore_finite [OF p, of now job] by blast
    moreover have "\<exists>s. calculateJobScore rd now emptyJob = Inr (Some s) \<and> 1 / 20 \<le> s \<and> s \<le> 1"
      using calculateJobScore_finite [OF p, of now emptyJob] c e by auto
    ultimately show "(\<exists>s. calculateJobScore rd now job = Inr (Some s) \<and> 0 \<le> s \<and> s \<le> 1)
      \<and> (\<exists>s. calculateJobScore rd now emptyJob = Inr (Some s) \<and> 1 / 20 \<le> s \<and> s \<le> 1)"
      by blast
  qed
  have b: "calculateTechStackScore rd (orEmpty None) = Inr (Some 0)"
    by (simp add: calculateTechStackScore_def orEmpty_def)
  have d: "data rd = None \<longrightarrow> calculateJobScore rd now job = Inl TypeError"
    using calculateJobScore_throws by blast
  have n: "data declaredResume = None" by (simp add: declaredResume_def)
  have f: "calculateJobScore declaredResume now exampleJob = Inl TypeError"
    "calculateJobScore declaredResume now emptyJob = Inl TypeError"
    using calculateJobScore_throws [OF n] by blast+
  show ?thesis using a b c d f by blast
qed

theorem calculateJobScore_range_witness:
  "calculateJobScore exampleResume 0 exampleJob = Inr (Some 1)
   \<and> calculateJobScore exampleResume 0 emptyJob = Inr (Some (1 / 20))
   \<and> (\<exists>s. calculateJobScore exampleResume 0 exampleJob = Inr (Some s) \<and> 0 \<le> s \<and> s \<le> 1)
   \<and> data declaredResume = None
   \<and> candidate declaredResume = candidate exampleResume
   \<and> calculateJobScore declaredResume 0 exampleJob = Inl TypeError"
proof -
  have "calculateJobScore exampleResume 0 exampleJob = Inr (Some 1)" by code_simp
  moreover have "calculateJobScore exampleResume 0 emptyJob = Inr (Some (1 / 20))" by code_simp
  moreover have "data exampleResume = Some exampleCandidate" by (simp add: exampleResume_def)
  moreover have "data declaredResume = None" by (simp add: declaredResume_def)
  moreover have "candidate declaredResume = candidate exampleResume"
    by (simp add: declaredResume_def exampleResume_def)
  ultimately show ?thesis
    using calculateJobScore_range [where rd = exampleResume and profile = exampleCandidate
        and now = 0 and job = exampleJob]
      calculateJobScore_range [where rd = declaredResume and profile = exampleCandidate
        and now = 0 and job = exampleJob]
    by simp
qed

text \<open>
  C6. The tech-overlap sub-score is the number of job techs that have a case-insensitive
  match in the profile list, divided by the larger of the two list lengths, times 100, and
  is 0 for a job without tech; matching ignores case in both directions, so \<open>React\<close> in
  either list matches \<open>react\<close> in the other.
\<close>

theorem tech_overlap_formula:
  "calculateTechStackScore (rd\<lparr>data := Some profile\<rparr>) jobTech
     = Inr (Some (spec_techOverlap jobTech (cand_tech_stack profile)))
   \<and> calculateTechStackScore rd [] = Inr (Some 0)
   \<and> ciEqual a b = ciEqual b a
   \<and> ciEqual (str ''React'') (str ''react'')
   \<and> calculateTechStackScore (rd\<lparr>data := Some (profile\<lparr>cand_tech_stack := [str ''react'']\<rparr>)\<rparr>)
        [str ''React''] = Inr (Some 100)
   \<and> calculateTechStackScore (rd\<lparr>data := Some (profile\<lparr>cand_tech_stack := [str ''React'']\<rparr>)\<rparr>)
        [str ''react''] = Inr (Some 100)"
proof -
  have f: "calculateTechStackScore (rd\<lparr>data := Some profile\<rparr>) jobTech
     = Inr (Some (spec_techOverlap jobTech (cand_tech_stack profile)))"
  proof (cases "jobTech = []")
    case True
    then show ?thesis by (simp add: calculateTechStackScore_def spec_techOverlap_def)
  next
    case False
    then have "0 < length jobTech" by simp
    then have "0 < max (length jobTech) (length (cand_tech_stack profile))" by linarith
    then show ?thesis using False
      by (simp add: calculateTechStackScore_def spec_techOverlap_def js_div_def Let_def techMatches_spec)
  qed
  have z: "calculateTechStackScore rd [] = Inr (Some 0)" by (simp add: calculateTechStackScore_def)
  have "toLowerCase (str ''React'') = toLowerCase (str ''react'')" by code_simp
  then have r: "ciEqual (str ''React'') (str ''react'')" by (simp add: toLowerCase_ciEqual)
  have r': "ciEqual (str ''react'') (str ''React'')" using r ciEqual_sym by blast
  have c1: "calculateTechStackScore (rd\<lparr>data := Some (profile\<lparr>cand_tech_stack := [str ''react'']\<rparr>)\<rparr>)
        [str ''React''] = Inr (Some 100)"
    using r
    by (simp add: calculateTechStackScore_def js_div_def Let_def techMatches_spec)
  have c2: "calculateTechStackScore (rd\<lparr>data := Some (profile\<lparr>cand_tech_stack := [str ''React'']\<rparr>)\<rparr>)
        [str ''react''] = Inr (Some 100)"
    using r'
    by (simp add: calculateTechStackScore_def js_div_def Let_def techMatches_spec)
  show ?thesis using f z r c1 c2 ciEqual_sym by blast
qed

theorem tech_overlap_formula_witness:
  "calculateTechStackScore exampleResume [str ''python'', str ''Go'', str ''POSTGRESQL'']
     = Inr (Some (200 / 3))
   \<and> spec_techOverlap [str ''python'', str ''Go'', str ''POSTGRESQL'']
        [str ''Python'', str ''PostgreSQL''] = 200 / 3"
proof -
  have c: "calculateTechStackScore exampleResume [str ''python'', str ''Go'', str ''POSTGRESQL'']
     = Inr (Some (200 / 3))"
    by code_simp
  have d: "cand_tech_stack exampleCandidate = [str ''Python'', str ''PostgreSQL'']"
    by (simp add: exampleCandidate_def)
  have e: "exampleResume\<lparr>data := Some exampleCandidate\<rparr> = exampleResume"
    by (simp add: exampleResume_def)
  show ?thesis
    using tech_overlap_formula [where rd = exampleResume and profile = exampleCandidate
        and jobTech = "[str ''python'', str ''Go'', str ''POSTGRESQL'']"] c d e
    by simp
qed

text \<open>
  C7. The title sub-score is 100 if the lower-cased title contains a (lower-cased) profile
  role as a substring; otherwise it is the number of the six generic keywords contained in
  the lower-cased title, divided by 6, times 60, which is 0 when none of them is contained.
\<close>

theorem title_score_formula:
  "calculateTitleScore (rd\<lparr>data := Some profile\<rparr>) ttl
     = Inr (Some (spec_titleScore ttl (roles profile)))
   \<and> (\<not> list_ex (\<lambda>role. sublist (toLowerCase role) (toLowerCase ttl)) (roles profile)
        \<and> filter (\<lambda>k. sublist k (toLowerCase ttl)) genericKeywords = []
      \<longrightarrow> calculateTitleScore (rd\<lparr>data := Some profile\<rparr>) ttl = Inr (Some 0))"
proof -
  have k: "titleKeywords = genericKeywords" by (simp add: titleKeywords_def genericKeywords_def)
  have len: "length genericKeywords = 6" by (simp add: genericKeywords_def)
  have "calculateTitleScore (rd\<lparr>data := Some profile\<rparr>) ttl
     = Inr (Some (spec_titleScore ttl (roles profile)))"
    by (simp add: calculateTitleScore_def spec_titleScore_def Let_def includesStr_sublist
          includesStr_fun k len js_div_def)
  then show ?thesis by (simp add: spec_titleScore_def)
qed

theorem title_score_formula_witness:
  "calculateTitleScore exampleResume (str ''Senior Backend Engineer'') = Inr (Some 100)
   \<and> calculateTitleScore exampleResume (str ''Full Stack Software Developer'') = Inr (Some 30)
   \<and> spec_titleScore (str ''Full Stack Software Developer'') [str ''Backend Engineer''] = 30
   \<and> calculateTitleScore exampleResume (str ''Pastry Chef'') = Inr (Some 0)"
proof -
  have a: "calculateTitleScore exampleResume (str ''Senior Backend Engineer'') = Inr (Some 100)"
    by code_simp
  have b: "calculateTitleScore exampleResume (str ''Full Stack Software Developer'') = Inr (Some 30)"
    by code_simp
  have r: "roles exampleCandidate = [str ''Backend Engineer'']"
    by (simp add: exampleCandidate_def)
  have e: "exampleResume\<lparr>data := Some exampleCandidate\<rparr> = exampleResume"
    by (simp add: exampleResume_def)
  have h: "\<not> list_ex (\<lambda>role. sublist (toLowerCase role) (toLowerCase (str ''Pastry Chef'')))
               (roles exampleCandidate)
           \<and> filter (\<lambda>k. sublist k (toLowerCase (str ''Pastry Chef''))) genericKeywords = []"
    by code_simp
  have c: "calculateTitleScore exampleResume (str ''Pastry Chef'') = Inr (Some 0)"
    using title_score_formula [where rd = exampleResume and profile = exampleCandidate
        and ttl = "str ''Pastry Chef''"] h
    unfolding e by blast
  show ?thesis
    using title_score_formula [where rd = exampleResume and profile = exampleCandidate
        and ttl = "str ''Full Stack Software Developer''"] a b c r e
    by simp
qed

section \<open>The matcher\<close>

lemma generateMatchReasons_cases:
  "1 \<le> length (generateMatchReasons rd now job s)
   \<and> (specificReasons rd now job = [] \<longrightarrow> generateMatchReasons rd now job s = [fallbackReason s])
   \<and> (specificReasons rd now job \<noteq> [] \<longrightarrow>
        generateMatchReasons rd now job s = specificReasons rd now job)"
  by (cases "specificReasons rd now job") (simp_all add: generateMatchReasons_def Let_def)

text \<open>
  C2. The list returned by \<open>generateMatchReasons\<close> has at least one element for every
  profile, clock reading, job record and score: it is the list of the specific reasons
  when one of the seven rules fires, and the single fallback reason with the percentage
  score otherwise.
\<close>

theorem generateMatchReasons_nonempty:
  "1 \<le> length (generateMatchReasons rd now job s)
   \<and> (specificReasons rd now job = [] \<longrightarrow>
        generateMatchReasons rd now job s
          = [str ''Overall match score: '' @ toFixed0 (s * 100) @ str ''%''])
   \<and> (specificReasons rd now job \<noteq> [] \<longrightarrow>
        generateMatchReasons rd now job s = specificReasons rd now job)"
  using generateMatchReasons_cases [of rd now job s] by (simp add: fallbackReason_def)

theorem generateMatchReasons_nonempty_witness:
  "specificReasons exampleResume 0 emptyJob = []
   \<and> generateMatchReasons exampleResume 0 emptyJob (1 / 20) = [str ''Overall match score: 5%'']
   \<and> generateMatchReasons declaredResume 0 emptyJob (1 / 20) = [str ''Overall match score: 5%'']
   \<and> generateMatchReasons exampleResume 0 exampleJob 1
       = [str ''Tech stack match: Python, PostgreSQL'', str ''Role match: Backend Engineer'',
          str ''Remote work available'', str ''Posted today'']"
proof -
  have e: "specificReasons exampleResume 0 emptyJob = []" by code_simp
  have e': "specificReasons declaredResume 0 emptyJob = []" by code_simp
  have f: "str ''Overall match score: '' @ toFixed0 (1 / 20 * 100) @ str ''%''
             = str ''Overall match score: 5%''" by code_simp
  have g: "specificReasons exampleResume 0 exampleJob
       = [str ''Tech stack match: Python, PostgreSQL'', str ''Role match: Backend Engineer'',
          str ''Remote work available'', str ''Posted today'']" by code_simp
  show ?thesis
    using generateMatchReasons_nonempty [of exampleResume 0 emptyJob "1 / 20"]
      generateMatchReasons_nonempty [of declaredResume 0 emptyJob "1 / 20"]
      generateMatchReasons_nonempty [of exampleResume 0 exampleJob 1] e e' f g
    by simp
qed

lemma insertBy_insort:
  "insertBy (\<lambda>a b. score b - score a) x ys = insort_key (\<lambda>j. - score j) x ys"
  by (induction ys) auto

lemma jsSort_sort_key:
  "jsSort (\<lambda>a b. score b - score a) xs = sort_key (\<lambda>j. - score j) xs"
  by (induction xs) (simp_all add: jsSort_def insertBy_insort)

lemma scoreJob_total:
  assumes p: "data rd = Some profile"
  shows "\<exists>sj. scoreJob rd nows job = Inr (Some sj) \<and> 0 \<le> score sj \<and> score sj \<le> 1
        \<and> 1 \<le> length (matchReasons sj) \<and> JobDetails.truncate sj = job"
proof -
  obtain s where "calculateJobScore rd (fst nows) job = Inr (Some s)" "0 \<le> s" "s \<le> 1"
    using calculateJobScore_finite [OF p] by blast
  then show ?thesis using generateMatchReasons_cases [of rd "snd nows" job s]
    by (simp add: scoreJob_def JobDetails.truncate_def)
qed

lemma scoreJob_throws:
  assumes "data rd = None"
  shows "scoreJob rd nows job = Inl TypeError"
  by (simp add: scoreJob_def calculateJobScore_throws [OF assms])

lemma scoreAll_total:
  assumes p: "data rd = Some profile"
  shows "\<exists>scored. scoreAll rd clock i jobs = Inr (Some scored)
     \<and> map (\<lambda>sj. Inr (Some sj)) scored
         = map (\<lambda>(k, job). scoreJob rd (clock k) job) (enumerate i jobs)
     \<and> map JobDetails.truncate scored = jobs"
proof (induction jobs arbitrary: i)
  case Nil
  then show ?case by simp
next
  case (Cons job jobs)
  obtain sj where sj: "scoreJob rd (clock i) job = Inr (Some sj)" "JobDetails.truncate sj = job"
    using scoreJob_total [OF p] by blast
  obtain rest where rest: "scoreAll rd clock (Suc i) jobs = Inr (Some rest)"
     "map (\<lambda>sj. Inr (Some sj)) rest
        = map (\<lambda>(k, job). scoreJob rd (clock k) job) (enumerate (Suc i) jobs)"
     "map JobDetails.truncate rest = jobs"
    using Cons.IH by blast
  show ?case using sj rest by simp
qed

lemma sorted_desc_iff:
  "sorted (map (\<lambda>j. - score j) ys) \<longleftrightarrow> sorted_wrt (\<lambda>a b. score a \<ge> score b) ys"
  by (simp add: sorted_map)

lemma scoreAll_cong:
  "(\<forall>k. i \<le> k \<and> k < i + length jobs \<longrightarrow> clock' k = clock k) \<Longrightarrow>
     scoreAll rd clock' i jobs = scoreAll rd clock i jobs"
proof (induction jobs arbitrary: i)
  case Nil
  then show ?case by simp
next
  case (Cons job jobs)
  have h: "clock' i = clock i" using Cons.prems by simp
  have "\<forall>k. Suc i \<le> k \<and> k < Suc i + length jobs \<longrightarrow> clock' k = clock k"
    using Cons.prems by simp
  then have "scoreAll rd clock' (Suc i) jobs = scoreAll rd clock (Suc i) jobs"
    by (rule Cons.IH)
  with h show ?case by (simp split: sum.splits)
qed

lemma scoreMultipleJobs_cong:
  "(\<forall>k<length jobs. clock' k = clock k) \<Longrightarrow>
     scoreMultipleJobs rd clock' jobs = scoreMultipleJobs rd clock jobs"
  using scoreAll_cong [of 0 jobs clock' clock rd] by (simp add: scoreMultipleJobs_def)

text \<open>On a resume without the key \<open>data\<close>, scoring a batch that is not empty throws.\<close>

lemma scoreMultipleJobs_throws:
  assumes "data rd = None" and "jobs \<noteq> []"
  shows "scoreMultipleJobs rd clock jobs = Inl TypeError"
  using assms
  by (cases jobs) (simp_all add: scoreMultipleJobs_def scoreJob_throws)

text \<open>
  C5, as amended. For a batch of job records that is scored without an exception and the
  clock readings taken while scoring it, \<open>scoreMultipleJobs\<close> returns a list \<open>ys\<close>: a
  permutation of the scored inputs, in descending order of score, in which jobs of equal
  score keep their input order. It is the only list with these three properties, and
  scoring the same batch again returns the same list when the clock readings are the
  same.
\<close>

theorem scoreMultipleJobs_sorted_stable:
  assumes "data rd = Some profile"
  shows "\<exists>scored ys. scoreAll rd clock 0 jobs = Inr (Some scored)
      \<and> map (\<lambda>sj. Inr (Some sj)) scored
          = map (\<lambda>(k, job). scoreJob rd (clock k) job) (enumerate 0 jobs)
      \<and> scoreMultipleJobs rd clock jobs = Inr (Some ys)
      \<and> mset ys = mset scored
      \<and> sorted_wrt (\<lambda>a b. score a \<ge> score b) ys
      \<and> (\<forall>k. filter (\<lambda>j. score j = k) ys = filter (\<lambda>j. score j = k) scored)
      \<and> (\<forall>zs. mset zs = mset scored \<and> sorted_wrt (\<lambda>a b. score a \<ge> score b) zs
               \<and> (\<forall>k. filter (\<lambda>j. score j = k) zs = filter (\<lambda>j. score j = k) scored)
             \<longrightarrow> zs = ys)
      \<and> (\<forall>clock'. (\<forall>k<length jobs. clock' k = clock k)
             \<longrightarrow> scoreMultipleJobs rd clock' jobs = Inr (Some ys))"
proof -
  obtain scored where sc: "scoreAll rd clock 0 jobs = Inr (Some scored)"
    "map (\<lambda>sj. Inr (Some sj)) scored
       = map (\<lambda>(k, job). scoreJob rd (clock k) job) (enumerate 0 jobs)"
    using scoreAll_total [OF assms] by blast
  define ys where "ys = sort_key (\<lambda>j. - score j) scored"
  have r: "scoreMultipleJobs rd clock jobs = Inr (Some ys)"
    by (simp add: scoreMultipleJobs_def sc(1) jsSort_sort_key ys_def)
  have m: "mset ys = mset scored" by (simp add: ys_def)
  have s: "sorted_wrt (\<lambda>a b. score a \<ge> score b) ys"
    unfolding sorted_desc_iff [symmetric] ys_def by (rule sorted_sort_key)
  have st: "\<forall>k. filter (\<lambda>j. score j = k) ys = filter (\<lambda>j. score j = k) scored"
  proof
    fix k
    have "filter (\<lambda>j. - score j = - k) ys = filter (\<lambda>j. - score j = - k) scored"
      unfolding ys_def by (rule sort_key_stable)
    then show "filter (\<lambda>j. score j = k) ys = filter (\<lambda>j. score j = k) scored" by simp
  qed
  have u: "\<forall>zs. mset zs = mset scored \<and> sorted_wrt (\<lambda>a b. score a \<ge> score b) zs
               \<and> (\<forall>k. filter (\<lambda>j. score j = k) zs = filter (\<lambda>j. score j = k) scored)
             \<longrightarrow> zs = ys"
  proof (intro allI impI)
    fix zs
    assume a: "mset zs = mset scored \<and> sorted_wrt (\<lambda>a b. score a \<ge> score b) zs
               \<and> (\<forall>k. filter (\<lambda>j. score j = k) zs = filter (\<lambda>j. score j = k) scored)"
    have "sort_key (\<lambda>j. - score j) scored = zs"
    proof (rule properties_for_sort_key)
      show "mset zs = mset scored" using a by simp
      show "sorted (map (\<lambda>j. - score j) zs)" using a by (simp add: sorted_desc_iff)
      fix k assume "k \<in> set zs"
      have e: "(\<lambda>x. - score k = - score x) = (\<lambda>j. score j = score k)" by auto
      show "filter (\<lambda>x. - score k = - score x) zs = filter (\<lambda>x. - score k = - score x) scored"
        unfolding e using a by blast
    qed
    then show "zs = ys" by (simp add: ys_def)
  qed
  have d: "\<forall>clock'. (\<forall>k<length jobs. clock' k = clock k)
             \<longrightarrow> scoreMultipleJobs rd clock' jobs = Inr (Some ys)"
    using scoreMultipleJobs_cong [of jobs _ clock rd] r by simp
  show ?thesis using sc r m s st u d by blast
qed

theorem scoreMultipleJobs_sorted_stable_witness:
  "data exampleResume = Some exampleCandidate
   \<and> (\<exists>ys. scoreMultipleJobs exampleResume frozenClock
           [emptyJob\<lparr>job_url := str ''a''\<rparr>, exampleJob, emptyJob\<lparr>job_url := str ''b''\<rparr>]
             = Inr (Some ys)
        \<and> map job_url ys = [str ''https://test.com/job/123'', str ''a'', str ''b'']
        \<and> map score ys = [1, 1 / 20, 1 / 20]
        \<and> sorted_wrt (\<lambda>a b. score a \<ge> score b) ys
        \<and> scoreMultipleJobs exampleResume (\<lambda>k. if k < 3 then (0, 0) else (int k, int k))
             [emptyJob\<lparr>job_url := str ''a''\<rparr>, exampleJob, emptyJob\<lparr>job_url := str ''b''\<rparr>]
             = Inr (Some ys))"
proof -
  let ?jobs = "[emptyJob\<lparr>job_url := str ''a''\<rparr>, exampleJob, emptyJob\<lparr>job_url := str ''b''\<rparr>]"
  let ?clock = "\<lambda>k. if k < 3 then (0, 0) else (int k, int k)"
  have p: "data exampleResume = Some exampleCandidate" by (simp add: exampleResume_def)
  have e: "map_sum id (map_option (map (\<lambda>j. (job_url j, score j))))
             (scoreMultipleJobs exampleResume frozenClock ?jobs)
             = Inr (Some [(str ''https://test.com/job/123'', 1), (str ''a'', 1 / 20),
                          (str ''b'', 1 / 20)])"
    by code_simp
  have c: "\<forall>k<length ?jobs. ?clock k = frozenClock k" by (simp add: frozenClock_def)
  obtain scored ys where ys: "scoreMultipleJobs exampleResume frozenClock ?jobs = Inr (Some ys)"
    "mset ys = mset scored"
    "sorted_wrt (\<lambda>a b. score a \<ge> score b) ys"
    "\<forall>k. filter (\<lambda>j. score j = k) ys = filter (\<lambda>j. score j = k) scored"
    "\<forall>zs. mset zs = mset scored \<and> sorted_wrt (\<lambda>a b. score a \<ge> score b) zs
               \<and> (\<forall>k. filter (\<lambda>j. score j = k) zs = filter (\<lambda>j. score j = k) scored)
             \<longrightarrow> zs = ys"
    "\<forall>clock'. (\<forall>k<length ?jobs. clock' k = frozenClock k)
             \<longrightarrow> scoreMultipleJobs exampleResume clock' ?jobs = Inr (Some ys)"
    using scoreMultipleJobs_sorted_stable [OF p, of frozenClock ?jobs] by blast
  have again: "scoreMultipleJobs exampleResume ?clock ?jobs = Inr (Some ys)"
    using ys(6) [rule_format, of ?clock] c by simp
  from e ys(1) have q: "map (\<lambda>j. (job_url j, score j)) ys
      = [(str ''https://test.com/job/123'', 1), (str ''a'', 1 / 20), (str ''b'', 1 / 20)]"
    by simp
  have "map job_url ys = map fst (map (\<lambda>j. (job_url j, score j)) ys)" by (simp add: comp_def)
  then have u: "map job_url ys = [str ''https://test.com/job/123'', str ''a'', str ''b'']"
    by (simp add: q)
  have "map score ys = map snd (map (\<lambda>j. (job_url j, score j)) ys)" by (simp add: comp_def)
  then have v: "map score ys = [1, 1 / 20, 1 / 20]" by (simp add: q)
  have "\<exists>ys. scoreMultipleJobs exampleResume frozenClock ?jobs = Inr (Some ys)
        \<and> map job_url ys = [str ''https://test.com/job/123'', str ''a'', str ''b'']
        \<and> map score ys = [1, 1 / 20, 1 / 20]
        \<and> sorted_wrt (\<lambda>a b. score a \<ge> score b) ys
        \<and> scoreMultipleJobs exampleResume ?clock ?jobs = Inr (Some ys)"
    by (rule exI [of _ ys]) (simp only: ys(1) ys(3) u v again simp_thms)
  with p show ?thesis by blast
qed

text \<open>
  The claim as stated fails for the second run of a batch at a later time: scored at
  the time of posting, the job posted then ranks first, and scored ten days later it
  ranks second.
\<close>

theorem scoreMultipleJobs_clock_reorders:
  "rankedUrls (scoreMultipleJobs exampleResume frozenClock agingBatch)
     = Inr (Some [str ''a'', str ''b''])
   \<and> rankedUrls (scoreMultipleJobs exampleResume laterClock agingBatch)
     = Inr (Some [str ''b'', str ''a''])"
  by code_simp

lemma sliceTo_take: "0 \<le> n \<Longrightarrow> sliceTo xs n = take (nat n) xs"
  by (simp add: sliceTo_def Let_def min_def)

text \<open>
  C4, as amended. For every list of scored jobs, every threshold and every count
  \<open>n \<ge> 0\<close>, \<open>selectTopJobs\<close> returns the first \<open>n\<close> elements of the sublist of jobs whose
  score is at least the threshold, or the first \<open>n\<close> elements of the whole list when no job
  reaches the threshold; for \<open>n \<ge> 1\<close> the selection from a non-empty list is non-empty.
\<close>

theorem selectTopJobs_take:
  "0 \<le> n \<Longrightarrow>
     selectTopJobs jobs n thr =
       (let qualified = filter (\<lambda>job. case thr of None \<Rightarrow> False | Some m \<Rightarrow> m \<le> score job) jobs
        in if qualified = [] then take (nat n) jobs else take (nat n) qualified)
     \<and> (1 \<le> n \<and> jobs \<noteq> [] \<longrightarrow> selectTopJobs jobs n thr \<noteq> [])"
  by (auto simp: selectTopJobs_def sliceTo_take Let_def)

theorem selectTopJobs_take_witness:
  "(0::int) \<le> 2
   \<and> selectTopJobs [scoredRecord (str ''a'') (1 / 10), scoredRecord (str ''b'') (1 / 20)] 2
        (Some (3 / 10))
       = [scoredRecord (str ''a'') (1 / 10), scoredRecord (str ''b'') (1 / 20)]
   \<and> selectTopJobs [scoredRecord (str ''a'') (9 / 10), scoredRecord (str ''b'') (2 / 10)] 5
        (Some (3 / 10))
       = [scoredRecord (str ''a'') (9 / 10)]"
proof -
  have s: "\<And>u x. score (scoredRecord u x) = x" by (simp add: scoredRecord_def)
  have h2: "(0::int) \<le> 2" and h5: "(0::int) \<le> 5" by simp_all
  show ?thesis
    using selectTopJobs_take [OF h2, of "[scoredRecord (str ''a'') (1 / 10), scoredRecord (str ''b'') (1 / 20)]" "Some (3 / 10)"]
      selectTopJobs_take [OF h5, of "[scoredRecord (str ''a'') (9 / 10), scoredRecord (str ''b'') (2 / 10)]" "Some (3 / 10)"]
    by (simp add: s)
qed

text \<open>
  The claim as stated, for every count, fails at the count 0: the selection from a
  one-element list is empty.
\<close>

theorem selectTopJobs_zero_count_empty:
  "[scoredRecord (str ''a'') (9 / 10)] \<noteq> []
   \<and> selectTopJobs [scoredRecord (str ''a'') (9 / 10)] 0 (Some (3 / 10)) = []"
  by (simp add: selectTopJobs_def sliceTo_def)

text \<open>
  C10. The report of the empty list is the zero report: no jobs, average 0, no top tech,
  no top companies, no locations and four empty score bands. The average of any list is a
  finite number.
\<close>

theorem generateJobReport_empty:
  "generateJobReport [] =
     \<lparr>totalJobs = 0, averageScore = Some 0, topTechStack = [], topCompanies = [],
      locationDistribution = [],
      scoreDistribution = \<lparr>excellent = 0, good = 0, fair = 0, poor = 0\<rparr>\<rparr>
   \<and> averageScore (generateJobReport scoredJobs) \<noteq> None"
  by (simp add: generateJobReport_def js_div_def Let_def)

theorem generateJobReport_empty_witness:
  "totalJobs (generateJobReport []) = 0 \<and> averageScore (generateJobReport []) = Some 0
   \<and> averageScore (generateJobReport [scoredRecord (str ''a'') (9 / 10),
                                       scoredRecord (str ''b'') (2 / 10)])
       = Some (11 / 20)"
proof -
  have "averageScore (generateJobReport [scoredRecord (str ''a'') (9 / 10),
                                         scoredRecord (str ''b'') (2 / 10)])
       = Some (11 / 20)"
    by code_simp
  then show ?thesis using generateJobReport_empty [of "[]"] by simp
qed

section \<open>The extractor\<close>

lemma startsWith_take: "startsWith s p \<longleftrightarrow> take (length p) s = p"
  by (induction s p rule: startsWith.induct) auto

lemma indexOfFrom_found:
  "indexOfFrom i s p \<noteq> -1 \<Longrightarrow>
     \<exists>k. indexOfFrom i s p = int (i + k) \<and> k + length p \<le> length s
         \<and> take (length p) (drop k s) = p
         \<and> (\<forall>j<k. take (length p) (drop j s) \<noteq> p)"
proof (induction s arbitrary: i)
  case Nil
  then show ?case by (auto split: if_splits)
next
  case (Cons c cs)
  show ?case
  proof (cases "startsWith (c # cs) p")
    case True
    then have t: "take (length p) (c # cs) = p" by (simp add: startsWith_take)
    then have "length p = min (length (c # cs)) (length p)" by (metis length_take)
    then have "length p \<le> length (c # cs)" by linarith
    with True t show ?thesis by (intro exI [of _ 0]) simp
  next
    case False
    then have r: "indexOfFrom i (c # cs) p = indexOfFrom (Suc i) cs p" by simp
    with Cons.prems have "indexOfFrom (Suc i) cs p \<noteq> -1" by simp
    then obtain k where k: "indexOfFrom (Suc i) cs p = int (Suc i + k)" "k + length p \<le> length cs"
      "take (length p) (drop k cs) = p" "\<forall>j<k. take (length p) (drop j cs) \<noteq> p"
      using Cons.IH by blast
    have n0: "take (length p) (c # cs) \<noteq> p" using False by (simp add: startsWith_take)
    have "\<forall>j<Suc k. take (length p) (drop j (c # cs)) \<noteq> p"
    proof (intro allI impI)
      fix j assume "j < Suc k"
      then show "take (length p) (drop j (c # cs)) \<noteq> p"
        using n0 k(4) by (cases j) auto
    qed
    with k r show ?thesis by (intro exI [of _ "Suc k"]) simp
  qed
qed

lemma indexOf_found:
  "sublist p s \<Longrightarrow>
     \<exists>k. indexOf s p = int k \<and> k + length p \<le> length s
         \<and> take (length p) (drop k s) = p
         \<and> (\<forall>j<k. take (length p) (drop j s) \<noteq> p)"
  using indexOfFrom_found [of 0 s p] by (simp add: indexOf_def indexOfFrom_absent)

lemma substring_window:
  assumes "n \<le> length s"
  shows "substring s (int n) (min (int n + 1000) (int (length s))) = take 1000 (drop n s)"
proof (cases "n + 1000 \<le> length s")
  case True
  then have "min (int n + 1000) (int (length s)) = int n + 1000" by simp
  then show ?thesis using True by (simp add: substring_def Let_def)
next
  case False
  then have m: "min (int n + 1000) (int (length s)) = int (length s)" by simp
  have "take (length s - n) (drop n s) = drop n s" by simp
  moreover have "take 1000 (drop n s) = drop n s" using False by simp
  ultimately show ?thesis using assms unfolding m
    by (simp add: substring_def Let_def nat_diff_distrib)
qed

lemma substring_beyond:
  assumes "length s < n"
  shows "substring s (int n) (min (int n + 1000) (int (length s))) = []"
proof -
  have "min (int n + 1000) (int (length s)) = int (length s)" using assms by simp
  then show ?thesis using assms by (simp add: substring_def Let_def)
qed

lemma length_substring_window:
  "length (substring s (int n) (min (int n + 1000) (int (length s)))) \<le> 1000"
proof (cases "n \<le> length s")
  case True
  then show ?thesis by (simp add: substring_window)
next
  case False
  then have "length s < n" by simp
  then have e: "substring s (int n) (min (int n + 1000) (int (length s))) = []"
    by (rule substring_beyond)
  show ?thesis unfolding e by simp
qed

lemma length_trim: "length (trim s) \<le> length s"
proof -
  have "length (dropWhile isWhiteSpace (rev (dropWhile isWhiteSpace s))) \<le> length (rev (dropWhile isWhiteSpace s))"
    by (rule length_dropWhile_le)
  also have "\<dots> \<le> length s" by (simp add: length_dropWhile_le)
  finally show ?thesis by (simp add: trim_def)
qed

lemma findSection_spec:
  "findSection text lowerText secs =
     (case find (\<lambda>h. sublist h lowerText) secs of
        None \<Rightarrow> []
      | Some h \<Rightarrow>
          trim (substring text (indexOf lowerText h + int (length h))
                  (min (indexOf lowerText h + int (length h) + 1000) (int (length text)))))"
proof (induction secs)
  case Nil
  then show ?case by simp
next
  case (Cons h rest)
  show ?case
  proof (cases "sublist h lowerText")
    case False
    then have "indexOf lowerText h = -1" by (simp add: indexOf_def indexOfFrom_absent)
    with False Cons show ?thesis by simp
  next
    case True
    then have "indexOf lowerText h \<noteq> -1" by (simp add: indexOf_def indexOfFrom_absent)
    with True show ?thesis by (simp add: Let_def)
  qed
qed

lemma findBySelectors_None:
  "findBySelectors q sels = None \<longleftrightarrow> (\<forall>sel \<in> set sels. \<forall>t. q sel = Some t \<longrightarrow> trim t = [])"
  by (induction sels) (auto split: option.splits)

lemma findBySelectors_Some:
  "findBySelectors q sels = Some t \<Longrightarrow> trim t \<noteq> []"
  by (induction sels) (auto split: option.splits if_splits)

lemma fieldText_empty:
  "fieldText page sels = [] \<longleftrightarrow> (\<forall>sel \<in> set sels. \<forall>t. querySelector page sel = Some t \<longrightarrow> trim t = [])"
proof (cases "findBySelectors (querySelector page) sels")
  case None
  then show ?thesis using findBySelectors_None [of "querySelector page" sels] by (simp add: fieldText_def)
next
  case (Some t)
  then have "trim t \<noteq> []" by (rule findBySelectors_Some)
  moreover have "\<not> (\<forall>sel \<in> set sels. \<forall>t. querySelector page sel = Some t \<longrightarrow> trim t = [])"
    using Some findBySelectors_None [of "querySelector page" sels] by simp
  ultimately show ?thesis using Some by (simp add: fieldText_def)
qed

lemma sublist_trim: "sublist (trim s) s"
proof -
  let ?t = "dropWhile isWhiteSpace s"
  have "suffix ?t s" by (rule suffix_dropWhile)
  then obtain us where us: "s = us @ ?t" by (auto simp: suffix_def)
  have "suffix (dropWhile isWhiteSpace (rev ?t)) (rev ?t)" by (rule suffix_dropWhile)
  then obtain vs where "rev ?t = vs @ dropWhile isWhiteSpace (rev ?t)" by (auto simp: suffix_def)
  then have "rev (rev ?t) = rev (vs @ dropWhile isWhiteSpace (rev ?t))" by simp
  then have "?t = trim s @ rev vs" by (simp add: trim_def)
  with us have "s = us @ trim s @ rev vs" by simp
  then show ?thesis unfolding sublist_def by blast
qed

text \<open>
  C8. \<open>extractRequirements\<close> checks the section headers in their fixed order against the
  lower-cased text. If none occurs, the result is empty. Otherwise, for the first header
  in that order that occurs, with \<open>k\<close> the position of its first occurrence in the
  lower-cased text, the result is cut from the text itself at the position \<open>k\<close> plus the
  length of the header, at most 1000 units long, and trimmed. On a text without the unit
  U+0130 the lower-cased text has the positions of the text: the header stands in the
  text at \<open>k\<close>, whatever the case of its letters, and the result is the trimmed window of
  at most 1000 units right after it. On a text with the unit U+0130 before the header
  the lower-cased text is longer than the text, and the result can start elsewhere than
  after the header: from \<open>dottedText\<close>, whose header is followed by \<open>Python\<close>, the
  result is \<open>ython\<close>.
\<close>

theorem extractRequirements_first_header:
  "(find (\<lambda>h. sublist h (toLowerCase text)) requirementSections = None
      \<longrightarrow> extractRequirements text = [])
   \<and> (\<forall>h. find (\<lambda>h. sublist h (toLowerCase text)) requirementSections = Some h \<longrightarrow>
        (\<exists>k. indexOf (toLowerCase text) h = int k
           \<and> take (length h) (drop k (toLowerCase text)) = h
           \<and> (\<forall>j<k. take (length h) (drop j (toLowerCase text)) \<noteq> h)
           \<and> extractRequirements text
               = trim (substring text (int (k + length h))
                         (min (int (k + length h) + 1000) (int (length text))))
           \<and> (304 \<notin> set text \<longrightarrow>
                k + length h \<le> length text
                \<and> map lowerSimple (take (length h) (drop k text)) = h
                \<and> extractRequirements text = trim (take 1000 (drop (k + length h) text))
                \<and> sublist (extractRequirements text) (take 1000 (drop (k + length h) text)))))
   \<and> length (extractRequirements text) \<le> 1000
   \<and> take 13 (drop 10 dottedText) = str ''Requirements:''
   \<and> drop 23 dottedText = str ''Python''
   \<and> extractRequirements dottedText = str ''ython''"
proof -
  note spec = findSection_spec [of "text" "toLowerCase text" requirementSections]
  have a: "find (\<lambda>h. sublist h (toLowerCase text)) requirementSections = None
      \<longrightarrow> extractRequirements text = []"
    using spec by (simp add: extractRequirements_def)
  have b: "\<forall>h. find (\<lambda>h. sublist h (toLowerCase text)) requirementSections = Some h \<longrightarrow>
        (\<exists>k. indexOf (toLowerCase text) h = int k
           \<and> take (length h) (drop k (toLowerCase text)) = h
           \<and> (\<forall>j<k. take (length h) (drop j (toLowerCase text)) \<noteq> h)
           \<and> extractRequirements text
               = trim (substring text (int (k + length h))
                         (min (int (k + length h) + 1000) (int (length text))))
           \<and> (304 \<notin> set text \<longrightarrow>
                k + length h \<le> length text
                \<and> map lowerSimple (take (length h) (drop k text)) = h
                \<and> extractRequirements text = trim (take 1000 (drop (k + length h) text))
                \<and> sublist (extractRequirements text) (take 1000 (drop (k + length h) text))))"
  proof (intro allI impI)
    fix h assume f: "find (\<lambda>h. sublist h (toLowerCase text)) requirementSections = Some h"
    then have "sublist h (toLowerCase text)" by (auto simp: find_Some_iff)
    then obtain k where k: "indexOf (toLowerCase text) h = int k"
      "k + length h \<le> length (toLowerCase text)"
      "take (length h) (drop k (toLowerCase text)) = h"
      "\<forall>j<k. take (length h) (drop j (toLowerCase text)) \<noteq> h"
      using indexOf_found by blast
    have e: "extractRequirements text
               = trim (substring text (int (k + length h))
                         (min (int (k + length h) + 1000) (int (length text))))"
      using spec f k(1) by (simp add: extractRequirements_def)
    have al: "304 \<notin> set text \<longrightarrow>
                k + length h \<le> length text
                \<and> map lowerSimple (take (length h) (drop k text)) = h
                \<and> extractRequirements text = trim (take 1000 (drop (k + length h) text))
                \<and> sublist (extractRequirements text) (take 1000 (drop (k + length h) text))"
    proof
      assume u: "304 \<notin> set text"
      have lo: "toLowerCase text = map lowerSimple text" using u by (rule toLowerCase_undotted)
      have le: "k + length h \<le> length text" using k(2) by (simp add: lo)
      have hd: "map lowerSimple (take (length h) (drop k text)) = h"
        using k(3) by (simp add: lo take_map drop_map)
      have w: "extractRequirements text = trim (take 1000 (drop (k + length h) text))"
        unfolding e using substring_window [OF le] by simp
      have "sublist (extractRequirements text) (take 1000 (drop (k + length h) text))"
        unfolding w by (rule sublist_trim)
      with le hd w show "k + length h \<le> length text
                \<and> map lowerSimple (take (length h) (drop k text)) = h
                \<and> extractRequirements text = trim (take 1000 (drop (k + length h) text))
                \<and> sublist (extractRequirements text) (take 1000 (drop (k + length h) text))"
        by blast
    qed
    show "\<exists>k. indexOf (toLowerCase text) h = int k
           \<and> take (length h) (drop k (toLowerCase text)) = h
           \<and> (\<forall>j<k. take (length h) (drop j (toLowerCase text)) \<noteq> h)
           \<and> extractRequirements text
               = trim (substring text (int (k + length h))
                         (min (int (k + length h) + 1000) (int (length text))))
           \<and> (304 \<notin> set text \<longrightarrow>
                k + length h \<le> length text
                \<and> map lowerSimple (take (length h) (drop k text)) = h
                \<and> extractRequirements text = trim (take 1000 (drop (k + length h) text))
                \<and> sublist (extractRequirements text) (take 1000 (drop (k + length h) text)))"
      using k(1) k(3) k(4) e al by blast
  qed
  have c: "length (extractRequirements text) \<le> 1000"
  proof (cases "find (\<lambda>h. sublist h (toLowerCase text)) requirementSections")
    case None
    then show ?thesis using a by simp
  next
    case (Some h)
    then obtain k where "extractRequirements text
               = trim (substring text (int (k + length h))
                         (min (int (k + length h) + 1000) (int (length text))))"
      using b by blast
    moreover have "length (trim (substring text (int (k + length h))
                         (min (int (k + length h) + 1000) (int (length text)))))
        \<le> length (substring text (int (k + length h))
                         (min (int (k + length h) + 1000) (int (length text))))"
      by (rule length_trim)
    moreover have "length (substring text (int (k + length h))
                         (min (int (k + length h) + 1000) (int (length text)))) \<le> 1000"
      by (rule length_substring_window)
    ultimately show ?thesis by simp
  qed
  have d1: "take 13 (drop 10 dottedText) = str ''Requirements:''" by code_simp
  have d2: "drop 23 dottedText = str ''Python''" by code_simp
  have d3: "extractRequirements dottedText = str ''ython''" by code_simp
  show ?thesis using a b c d1 d2 d3 by blast
qed

theorem extractRequirements_first_header_witness:
  "find (\<lambda>h. sublist h (toLowerCase (str ''About us. Minimum Requirements:   5 years of Go. Must have: fun'')))
     requirementSections = Some (str ''requirements:'')
   \<and> 304 \<notin> set (str ''About us. Minimum Requirements:   5 years of Go. Must have: fun'')
   \<and> extractRequirements (str ''About us. Minimum Requirements:   5 years of Go. Must have: fun'')
       = str ''5 years of Go. Must have: fun''
   \<and> extractRequirements (str ''No section here'') = []
   \<and> length (extractRequirements (str ''About us. Minimum Requirements:   5 years of Go. Must have: fun'')) \<le> 1000
   \<and> 304 \<in> set dottedText
   \<and> extractRequirements dottedText = str ''ython''"
proof -
  let ?t = "str ''About us. Minimum Requirements:   5 years of Go. Must have: fun''"
  have f: "find (\<lambda>h. sublist h (toLowerCase ?t)) requirementSections = Some (str ''requirements:'')"
    by code_simp
  have g: "find (\<lambda>h. sublist h (toLowerCase (str ''No section here''))) requirementSections = None"
    by code_simp
  have u: "304 \<notin> set ?t" by (simp add: str_def)
  have i: "indexOf (toLowerCase ?t) (str ''requirements:'') = 18" by code_simp
  have t: "trim (take 1000 (drop (18 + length (str ''requirements:'')) ?t))
             = str ''5 years of Go. Must have: fun''"
    by code_simp
  note inst = extractRequirements_first_header [of ?t]
  from inst f u
  obtain k where k: "indexOf (toLowerCase ?t) (str ''requirements:'') = int k"
    "extractRequirements ?t = trim (take 1000 (drop (k + length (str ''requirements:'')) ?t))"
    by blast
  from k(1) i have "k = 18" by simp
  with k(2) t have r: "extractRequirements ?t = str ''5 years of Go. Must have: fun''" by simp
  have l: "length (extractRequirements ?t) \<le> 1000" using inst by blast
  have n: "extractRequirements (str ''No section here'') = []"
    using extractRequirements_first_header [of "str ''No section here''"] g by blast
  have dd: "304 \<in> set dottedText" by (simp add: dottedText_def)
  have de: "extractRequirements dottedText = str ''ython''" using inst by blast
  show ?thesis using f u r n l dd de by blast
qed

text \<open>The fields and the record of the example pages.\<close>

lemma board_fields:
  "fieldText boardPage titleSelectors = str ''Backend Engineer''"
  "fieldText boardPage companySelectors = str ''Acme''"
  "fieldText boardPage descriptionSelectors = []"
  "fieldText boardPage salarySelectors = []"
  "fieldText boardPage locationSelectors = []"
  by code_simp+

lemma long_fields:
  "fieldText longSalaryPage titleSelectors = str ''Backend Engineer''"
  "fieldText longSalaryPage companySelectors = str ''Acme''"
  "fieldText longSalaryPage descriptionSelectors = []"
  "fieldText longSalaryPage salarySelectors = replicate 101 57"
  "fieldText longSalaryPage locationSelectors = []"
  by code_simp+

lemma board_text:
  "extractRequirements (innerText boardPage) = str ''Python. Posted 2 days ago''"
  "extractTechStack exampleResume (innerText boardPage) = Inr [str ''Python'', str ''Go'']"
  "extractPostedDate 0 (innerText boardPage) = Some (DateMs (- 172800000))"
  by code_simp+

lemma board_page:
  "evaluates boardPage" "hostname boardPage = str ''jobs.example.com''"
  "pageUrl boardPage = str ''https://jobs.example.com/2''"
  by (simp_all add: boardPage_def)

lemma long_page:
  "evaluates longSalaryPage" "hostname longSalaryPage = hostname boardPage"
  "pageUrl longSalaryPage = pageUrl boardPage" "innerText longSalaryPage = innerText boardPage"
  by (simp_all add: longSalaryPage_def boardPage_def)

lemma str_nonempty:
  "str ''Backend Engineer'' \<noteq> []" "str ''Acme'' \<noteq> []" "replicate 101 (57::int) \<noteq> []"
  by (simp_all add: str_def)

lemma board_record: "extractJobDetails exampleResume 0 boardPage = Some boardRecord"
  by (simp add: extractJobDetails_def Let_def board_fields board_text board_page str_nonempty
      orUndefined_def boardRecord_def)

lemma long_record:
  "extractJobDetails exampleResume 0 longSalaryPage
     = Some (boardRecord\<lparr>salary_range := Some (replicate 101 57)\<rparr>)"
  by (simp add: extractJobDetails_def Let_def long_fields board_text long_page board_page
      str_nonempty orUndefined_def boardRecord_def)

text \<open>On a resume without the key \<open>data\<close> no page yields a record.\<close>

lemma extractJobDetails_throws:
  assumes "data rd = None"
  shows "extractJobDetails rd now page = None"
  using assms by (simp add: extractJobDetails_def extractTechStack_def Let_def)

text \<open>
  C3, as amended. \<open>extractJobDetails\<close> returns null when evaluating the page throws or
  the title or the company is unresolved, a field being unresolved when no selector of
  its chain finds an element with non-empty trimmed text. On a resume that carries the
  profile under \<open>data\<close> these are the only pages without a record: when both title and
  company resolve, a record is produced, in which an unresolved description is the empty
  string and an unresolved salary or location is undefined.
\<close>

theorem extractJobDetails_null_iff:
  "(\<not> evaluates page \<or> fieldText page titleSelectors = [] \<or> fieldText page companySelectors = []
      \<longrightarrow> extractJobDetails rd now page = None)
   \<and> (data rd = Some profile \<longrightarrow>
       (extractJobDetails rd now page = None \<longleftrightarrow>
          \<not> evaluates page \<or> fieldText page titleSelectors = []
          \<or> fieldText page companySelectors = [])
       \<and> (evaluates page \<and> fieldText page titleSelectors \<noteq> []
            \<and> fieldText page companySelectors \<noteq> []
          \<longrightarrow> (\<exists>techStack. extractTechStack rd (innerText page) = Inr techStack
                \<and> extractJobDetails rd now page =
                  Some \<lparr>title = fieldText page titleSelectors,
                        company = fieldText page companySelectors,
                        company_url = Some (hostname page), job_url = pageUrl page,
                        description = Some (fieldText page descriptionSelectors),
                        requirements = Some (extractRequirements (innerText page)),
                        tech_stack = Some techStack,
                        salary_range = (if fieldText page salarySelectors = [] then None
                                        else Some (fieldText page salarySelectors)),
                        location = (if fieldText page locationSelectors = [] then None
                                    else Some (fieldText page locationSelectors)),
                        posted_date = extractPostedDate now (innerText page)\<rparr>)))
   \<and> (fieldText page sels = [] \<longleftrightarrow>
        (\<forall>sel \<in> set sels. \<forall>t. querySelector page sel = Some t \<longrightarrow> trim t = []))"
proof -
  have a: "\<not> evaluates page \<or> fieldText page titleSelectors = []
             \<or> fieldText page companySelectors = []
      \<longrightarrow> extractJobDetails rd now page = None"
    by (auto simp: extractJobDetails_def Let_def)
  have b: "data rd = Some profile \<longrightarrow>
       (extractJobDetails rd now page = None \<longleftrightarrow>
          \<not> evaluates page \<or> fieldText page titleSelectors = []
          \<or> fieldText page companySelectors = [])
       \<and> (evaluates page \<and> fieldText page titleSelectors \<noteq> []
            \<and> fieldText page companySelectors \<noteq> []
          \<longrightarrow> (\<exists>techStack. extractTechStack rd (innerText page) = Inr techStack
                \<and> extractJobDetails rd now page =
                  Some \<lparr>title = fieldText page titleSelectors,
                        company = fieldText page companySelectors,
                        company_url = Some (hostname page), job_url = pageUrl page,
                        description = Some (fieldText page descriptionSelectors),
                        requirements = Some (extractRequirements (innerText page)),
                        tech_stack = Some techStack,
                        salary_range = (if fieldText page salarySelectors = [] then None
                                        else Some (fieldText page salarySelectors)),
                        location = (if fieldText page locationSelectors = [] then None
                                    else Some (fieldText page locationSelectors)),
                        posted_date = extractPostedDate now (innerText page)\<rparr>))"
    by (simp add: extractJobDetails_def extractTechStack_def Let_def orUndefined_def)
  show ?thesis using a b fieldText_empty [of page sels] by blast
qed

theorem extractJobDetails_null_iff_witness:
  "evaluates boardPage \<and> data exampleResume = Some exampleCandidate
   \<and> fieldText boardPage titleSelectors = str ''Backend Engineer''
   \<and> fieldText boardPage companySelectors = str ''Acme''
   \<and> extractJobDetails exampleResume 0 boardPage =
       Some \<lparr>title = str ''Backend Engineer'', company = str ''Acme'',
             company_url = Some (str ''jobs.example.com''),
             job_url = str ''https://jobs.example.com/2'',
             description = Some [], requirements = Some (str ''Python. Posted 2 days ago''),
             tech_stack = Some [str ''Python'', str ''Go''], salary_range = None,
             location = None, posted_date = Some (DateMs (- 172800000))\<rparr>
   \<and> fieldText (boardPage\<lparr>querySelector := (\<lambda>sel. Some [160, 32])\<rparr>) titleSelectors = []
   \<and> extractJobDetails exampleResume 0 (boardPage\<lparr>querySelector := (\<lambda>sel. Some [160, 32])\<rparr>)
       = None"
proof -
  let ?blank = "boardPage\<lparr>querySelector := (\<lambda>sel. Some [160, 32])\<rparr>"
  have dp: "data exampleResume = Some exampleCandidate" by (simp add: exampleResume_def)
  have bt: "fieldText ?blank titleSelectors = []" by code_simp
  have rec: "extractJobDetails exampleResume 0 boardPage =
       Some \<lparr>title = str ''Backend Engineer'', company = str ''Acme'',
             company_url = Some (str ''jobs.example.com''),
             job_url = str ''https://jobs.example.com/2'',
             description = Some [], requirements = Some (str ''Python. Posted 2 days ago''),
             tech_stack = Some [str ''Python'', str ''Go''], salary_range = None,
             location = None, posted_date = Some (DateMs (- 172800000))\<rparr>"
    using extractJobDetails_null_iff [where rd = exampleResume and profile = exampleCandidate
        and now = 0 and page = boardPage]
      dp board_fields board_text board_page str_nonempty
    by auto
  have nul: "extractJobDetails exampleResume 0 ?blank = None"
    using extractJobDetails_null_iff [where rd = exampleResume and now = 0 and page = ?blank] bt
    by blast
  show ?thesis using dp board_page(1) board_fields(1,2) rec bt nul by blast
qed

text \<open>
  The claim as stated fails on a page whose title resolves and whose company does not:
  no record is produced.
\<close>

theorem extractJobDetails_title_only_null:
  "evaluates titleOnlyPage \<and> fieldText titleOnlyPage titleSelectors = str ''Backend Engineer''
   \<and> extractJobDetails exampleResume 0 titleOnlyPage = None"
  by code_simp

section \<open>The orchestrator\<close>

lemma scrapeOne_failure:
  "\<forall>p c. visit env u \<noteq> PageLoaded p c \<Longrightarrow> snd (scrapeOne rd env br u) = None"
  by (cases "visit env u") (auto simp: scrapeOne_def)

lemma scrapeOne_loaded:
  "initialized br \<Longrightarrow> openContexts br < maxConcurrency br \<Longrightarrow> visit env u = PageLoaded page closes
     \<Longrightarrow> snd (scrapeOne rd env br u) = extractJobDetails rd (parseClock env u) page"
  by (simp add: scrapeOne_def)

lemma scrapeAll_step:
  "snd (scrapeAll rd env br (r # rs)) =
     (case snd (scrapeOne rd env br (url r)) of None \<Rightarrow> [] | Some d \<Rightarrow> [d])
       @ snd (scrapeAll rd env (fst (scrapeOne rd env br (url r))) rs)"
  by (simp add: split_beta split: option.splits)

lemma scrapeAll_skip:
  "snd (scrapeOne rd env br (url r)) = None \<Longrightarrow>
     scrapeAll rd env br (r # rs) = scrapeAll rd env (fst (scrapeOne rd env br (url r))) rs"
  by (simp add: split_beta)

lemma scrapeAll_all_fail:
  "\<forall>r \<in> set rs. \<forall>p c. visit env (url r) \<noteq> PageLoaded p c \<Longrightarrow>
     snd (scrapeAll rd env br rs) = []"
proof (induction rs arbitrary: br)
  case Nil
  then show ?case by simp
next
  case (Cons r rs)
  have "snd (scrapeOne rd env br (url r)) = None"
    using Cons.prems by (intro scrapeOne_failure) simp
  then have "scrapeAll rd env br (r # rs) = scrapeAll rd env (fst (scrapeOne rd env br (url r))) rs"
    by (rule scrapeAll_skip)
  then show ?case using Cons by simp
qed

text \<open>The search returns exactly on a resume that carries the profile under \<open>data\<close>.\<close>

lemma searchAllRoles_returns:
  "(\<exists>br0 results. searchAllRoles rd env br = (br0, Inr results)) \<longleftrightarrow> data rd \<noteq> None"
  by (cases "data rd") (auto simp: searchAllRoles_def split_beta)

lemma searchAllRoles_throws:
  "data rd = None \<Longrightarrow> searchAllRoles rd env br = (br, Inl TypeError)"
  by (simp add: searchAllRoles_def)

lemma scoreMultipleJobs_Nil: "scoreMultipleJobs rd clock [] = Inr (Some [])"
  by (simp add: scoreMultipleJobs_def jsSort_def)

lemma selectTopJobs_Nil: "selectTopJobs [] n thr = []"
  by (simp add: selectTopJobs_def sliceTo_def)

lemma set_sliceTo: "set (sliceTo xs n) \<subseteq> set xs"
  by (simp add: sliceTo_def Let_def set_take_subset)

lemma selectTopJobs_subset: "set (selectTopJobs xs n thr) \<subseteq> set xs"
proof -
  have "set (sliceTo (filter (\<lambda>job. case thr of None \<Rightarrow> False | Some m \<Rightarrow> m \<le> score job) xs) n)
          \<subseteq> set (filter (\<lambda>job. case thr of None \<Rightarrow> False | Some m \<Rightarrow> m \<le> score job) xs)"
    by (rule set_sliceTo)
  then have "set (sliceTo (filter (\<lambda>job. case thr of None \<Rightarrow> False | Some m \<Rightarrow> m \<le> score job) xs) n)
          \<subseteq> set xs"
    by auto
  then show ?thesis using set_sliceTo [of xs n] by (simp add: selectTopJobs_def Let_def)
qed

text \<open>A query stores the row exactly when the schema accepts it, and touches no session.\<close>

lemma insertJobListing_accepted:
  "accepts sj \<Longrightarrow>
     \<exists>db' lid. insertJobListing db sj sid = (db', Inr lid) \<and> sessions db' = sessions db"
  by (simp add: insertJobListing_def Let_def split: option.splits)

lemma insertJobListing_refused:
  "\<not> accepts sj \<Longrightarrow> insertJobListing db sj sid = (db, Inl PersistenceError)"
  by (simp add: insertJobListing_def)

lemma insertAll_accepted:
  "list_all accepts sjs \<Longrightarrow>
     \<exists>db' lids. insertAll db sjs sid = (db', Inr lids) \<and> sessions db' = sessions db"
proof (induction sjs arbitrary: db)
  case Nil
  then show ?case by simp
next
  case (Cons sj sjs)
  then have "accepts sj" by simp
  then obtain db1 lid where a: "insertJobListing db sj sid = (db1, Inr lid)"
    "sessions db1 = sessions db"
    using insertJobListing_accepted by blast
  from Cons have "list_all accepts sjs" by simp
  then obtain db2 lids where b: "insertAll db1 sjs sid = (db2, Inr lids)"
    "sessions db2 = sessions db1"
    using Cons.IH by blast
  show ?case using a b by simp
qed

lemma insertAll_refused:
  "\<not> list_all accepts sjs \<Longrightarrow>
     \<exists>db'. insertAll db sjs sid = (db', Inl PersistenceError) \<and> sessions db' = sessions db"
proof (induction sjs arbitrary: db)
  case Nil
  then show ?case by simp
next
  case (Cons sj sjs)
  show ?case
  proof (cases "accepts sj")
    case False
    then show ?thesis by (simp add: insertJobListing_refused)
  next
    case True
    then obtain db1 lid where a: "insertJobListing db sj sid = (db1, Inr lid)"
      "sessions db1 = sessions db"
      using insertJobListing_accepted by blast
    from True Cons.prems have "\<not> list_all accepts sjs" by simp
    then obtain db2 where b: "insertAll db1 sjs sid = (db2, Inl PersistenceError)"
      "sessions db2 = sessions db1"
      using Cons.IH by blast
    show ?thesis using a b by simp
  qed
qed

lemma storeJobs_completes:
  assumes ok: "list_all accepts scoredJobs" and row: "sessions db sid = Some row"
  shows "\<exists>db'. storeJobs br db env sid scoredJobs =
           ((br, db'),
            Inr \<lparr>sessionId = sid, totalJobsFound = length scoredJobs,
                 topJobsSelected =
                   length (selectTopJobs scoredJobs (topJobsCount env) (minScoreThreshold env)),
                 cycleAverageScore = averageScore (generateJobReport scoredJobs)\<rparr>)
         \<and> sessions db' sid =
             Some (row\<lparr>total_jobs_found := length scoredJobs,
                       top_jobs_selected :=
                         length (selectTopJobs scoredJobs (topJobsCount env) (minScoreThreshold env)),
                       status := Completed, completed_at := Some (finishClock env)\<rparr>)"
proof -
  define topJobs where "topJobs = selectTopJobs scoredJobs (topJobsCount env) (minScoreThreshold env)"
  obtain db2 allIds where d2: "insertAll db scoredJobs sid = (db2, Inr allIds)"
    "sessions db2 = sessions db"
    using insertAll_accepted [OF ok] by blast
  have "set topJobs \<subseteq> set scoredJobs" unfolding topJobs_def by (rule selectTopJobs_subset)
  then have "list_all accepts topJobs" using ok by (auto simp: list_all_iff)
  then obtain db3 topIds where d3: "insertAll db2 topJobs sid = (db3, Inr topIds)"
    "sessions db3 = sessions db2"
    using insertAll_accepted by blast
  have t: "totalJobs (generateJobReport scoredJobs) = length scoredJobs"
    by (simp add: generateJobReport_def Let_def)
  show ?thesis
    by (simp add: storeJobs_def topJobs_def [symmetric] d2 d3 row Let_def t
        markTopPicks_def updateSession_def applyUpdates_def)
qed

lemma storeJobs_fails:
  assumes bad: "\<not> list_all accepts scoredJobs" and row: "sessions db sid = Some row"
  shows "\<exists>db'. storeJobs br db env sid scoredJobs = ((br, db'), Inl PersistenceError)
         \<and> sessions db' sid =
             Some (row\<lparr>status := Failed, completed_at := Some (finishClock env),
                       error_message := Some PersistenceError\<rparr>)"
proof -
  obtain db2 where d2: "insertAll db scoredJobs sid = (db2, Inl PersistenceError)"
    "sessions db2 = sessions db"
    using insertAll_refused [OF bad] by blast
  show ?thesis
    by (simp add: storeJobs_def d2 row Let_def failCycle_def updateSession_def applyUpdates_def)
qed

lemma scoreMultipleJobs_total:
  assumes "data rd = Some profile"
  shows "\<exists>ys. scoreMultipleJobs rd clock jobs = Inr (Some ys)
           \<and> mset (map JobDetails.truncate ys) = mset jobs \<and> length ys = length jobs"
proof -
  obtain scored where s: "scoreAll rd clock 0 jobs = Inr (Some scored)"
    "map JobDetails.truncate scored = jobs"
    using scoreAll_total [OF assms] by blast
  have r: "scoreMultipleJobs rd clock jobs = Inr (Some (sort_key (\<lambda>j. - score j) scored))"
    by (simp add: scoreMultipleJobs_def s(1) jsSort_sort_key)
  have "mset (map JobDetails.truncate (sort_key (\<lambda>j. - score j) scored))
          = image_mset JobDetails.truncate (mset (sort_key (\<lambda>j. - score j) scored))"
    by simp
  also have "\<dots> = image_mset JobDetails.truncate (mset scored)" by simp
  also have "\<dots> = mset jobs" using s(2) by (metis mset_map)
  finally have m: "mset (map JobDetails.truncate (sort_key (\<lambda>j. - score j) scored)) = mset jobs" .
  have "length (sort_key (\<lambda>j. - score j) scored) = length jobs"
    using s(2) by (metis length_map length_sort)
  with r m show ?thesis by blast
qed

lemma cycle_outcome:
  assumes s: "searchAllRoles rd env br = (br0, Inr results)"
  shows "\<exists>br1 jobDetails scoredJobs.
           scrapeAll rd env br0 (take 50 results) = (br1, jobDetails)
         \<and> scoreMultipleJobs rd (scoringClock env) jobDetails = Inr (Some scoredJobs)
         \<and> mset (map JobDetails.truncate scoredJobs) = mset jobDetails
         \<and> (list_all accepts scoredJobs \<longrightarrow>
             (\<exists>db' row. executeFullScrapingCycle rd env (br, db) =
                 ((br1, db'),
                  Inr \<lparr>sessionId = next_session_id db, totalJobsFound = length jobDetails,
                       topJobsSelected =
                         length (selectTopJobs scoredJobs (topJobsCount env) (minScoreThreshold env)),
                       cycleAverageScore = averageScore (generateJobReport scoredJobs)\<rparr>)
               \<and> sessions db' (next_session_id db) = Some row
               \<and> status row = Completed \<and> error_message row = None
               \<and> total_jobs_found row = length jobDetails
               \<and> top_jobs_selected row =
                   length (selectTopJobs scoredJobs (topJobsCount env) (minScoreThreshold env))))
         \<and> (\<not> list_all accepts scoredJobs \<longrightarrow>
             (\<exists>db' row. executeFullScrapingCycle rd env (br, db) = ((br1, db'), Inl PersistenceError)
               \<and> sessions db' (next_session_id db) = Some row
               \<and> status row = Failed \<and> error_message row = Some PersistenceError))"
proof -
  obtain profile where p: "data rd = Some profile"
    using s searchAllRoles_returns [of rd env br] by auto
  obtain br1 jobDetails where b: "scrapeAll rd env br0 (take 50 results) = (br1, jobDetails)"
    by (cases "scrapeAll rd env br0 (take 50 results)")
  obtain scoredJobs where c: "scoreMultipleJobs rd (scoringClock env) jobDetails = Inr (Some scoredJobs)"
    "mset (map JobDetails.truncate scoredJobs) = mset jobDetails"
    "length scoredJobs = length jobDetails"
    using scoreMultipleJobs_total [OF p] by blast
  define sid where "sid = next_session_id db"
  define row0 where "row0 = \<lparr>search_queries = roles (candidate rd), status = Running,
      total_jobs_found = 0, top_jobs_selected = 0, completed_at = None, error_message = None\<rparr>"
  define db1 where "db1 = db\<lparr>sessions := (sessions db)(sid \<mapsto> row0), next_session_id := Suc sid\<rparr>"
  have cs: "createSession db (roles (candidate rd)) = (db1, sid)"
    by (simp add: db1_def sid_def row0_def createSession_def Let_def)
  have s1: "sessions db1 sid = Some row0" by (simp add: db1_def)
  have sl: "sliceTo results 50 = take 50 results" by (simp add: sliceTo_take)
  have run: "executeFullScrapingCycle rd env (br, db) = storeJobs br1 db1 env sid scoredJobs"
    by (simp add: executeFullScrapingCycle_def cs s sl b c(1))
  have ok: "list_all accepts scoredJobs \<longrightarrow>
             (\<exists>db' row. executeFullScrapingCycle rd env (br, db) =
                 ((br1, db'),
                  Inr \<lparr>sessionId = sid, totalJobsFound = length jobDetails,
                       topJobsSelected =
                         length (selectTopJobs scoredJobs (topJobsCount env) (minScoreThreshold env)),
                       cycleAverageScore = averageScore (generateJobReport scoredJobs)\<rparr>)
               \<and> sessions db' sid = Some row
               \<and> status row = Completed \<and> error_message row = None
               \<and> total_jobs_found row = length jobDetails
               \<and> top_jobs_selected row =
                   length (selectTopJobs scoredJobs (topJobsCount env) (minScoreThreshold env)))"
  proof
    assume a: "list_all accepts scoredJobs"
    obtain db' where d: "storeJobs br1 db1 env sid scoredJobs =
           ((br1, db'),
            Inr \<lparr>sessionId = sid, totalJobsFound = length scoredJobs,
                 topJobsSelected =
                   length (selectTopJobs scoredJobs (topJobsCount env) (minScoreThreshold env)),
                 cycleAverageScore = averageScore (generateJobReport scoredJobs)\<rparr>)"
        "sessions db' sid =
             Some (row0\<lparr>total_jobs_found := length scoredJobs,
                       top_jobs_selected :=
                         length (selectTopJobs scoredJobs (topJobsCount env) (minScoreThreshold env)),
                       status := Completed, completed_at := Some (finishClock env)\<rparr>)"
      using storeJobs_completes [OF a s1] by blast
    show "\<exists>db' row. executeFullScrapingCycle rd env (br, db) =
                 ((br1, db'),
                  Inr \<lparr>sessionId = sid, totalJobsFound = length jobDetails,
                       topJobsSelected =
                         length (selectTopJobs scoredJobs (topJobsCount env) (minScoreThreshold env)),
                       cycleAverageScore = averageScore (generateJobReport scoredJobs)\<rparr>)
               \<and> sessions db' sid = Some row
               \<and> status row = Completed \<and> error_message row = None
               \<and> total_jobs_found row = length jobDetails
               \<and> top_jobs_selected row =
                   length (selectTopJobs scoredJobs (topJobsCount env) (minScoreThreshold env))"
      using d c(3) by (simp add: run row0_def)
  qed
  have bad: "\<not> list_all accepts scoredJobs \<longrightarrow>
             (\<exists>db' row. executeFullScrapingCycle rd env (br, db) = ((br1, db'), Inl PersistenceError)
               \<and> sessions db' sid = Some row
               \<and> status row = Failed \<and> error_message row = Some PersistenceError)"
  proof
    assume a: "\<not> list_all accepts scoredJobs"
    obtain db' where d: "storeJobs br1 db1 env sid scoredJobs = ((br1, db'), Inl PersistenceError)"
        "sessions db' sid =
             Some (row0\<lparr>status := Failed, completed_at := Some (finishClock env),
                       error_message := Some PersistenceError\<rparr>)"
      using storeJobs_fails [OF a s1] by blast
    show "\<exists>db' row. executeFullScrapingCycle rd env (br, db) = ((br1, db'), Inl PersistenceError)
               \<and> sessions db' sid = Some row
               \<and> status row = Failed \<and> error_message row = Some PersistenceError"
      using d by (simp add: run)
  qed
  show ?thesis using b c(1) c(2) ok bad unfolding sid_def by blast
qed

lemma cycle_no_details:
  assumes s: "searchAllRoles rd env br = (br0, Inr results)"
    and n: "snd (scrapeAll rd env br0 (take 50 results)) = []"
  shows "\<exists>br' db'. executeFullScrapingCycle rd env (br, db) =
           ((br', db'), Inr \<lparr>sessionId = next_session_id db, totalJobsFound = 0, topJobsSelected = 0,
                             cycleAverageScore = Some 0\<rparr>)
         \<and> sessions db' (next_session_id db) =
             Some \<lparr>search_queries = roles (candidate rd), status = Completed, total_jobs_found = 0,
                   top_jobs_selected = 0, completed_at = Some (finishClock env), error_message = None\<rparr>"
proof -
  obtain br1 where b: "scrapeAll rd env br0 (take 50 results) = (br1, [])"
    using n by (cases "scrapeAll rd env br0 (take 50 results)") simp
  have sl: "sliceTo results 50 = take 50 results" by (simp add: sliceTo_take)
  show ?thesis
    by (simp add: executeFullScrapingCycle_def createSession_def s sl b scoreMultipleJobs_Nil
        storeJobs_def selectTopJobs_Nil markTopPicks_def updateSession_def applyUpdates_def
        generateJobReport_def Let_def)
qed

text \<open>On a resume without the key \<open>data\<close> the search throws, and the run rethrows its error.\<close>

lemma cycle_without_data:
  assumes "data rd = None"
  shows "snd (executeFullScrapingCycle rd env (br, db)) = Inl TypeError"
  by (simp add: executeFullScrapingCycle_def createSession_def searchAllRoles_throws [OF assms]
      failCycle_def Let_def)

text \<open>The example runs: their search, their visits and the rows they try to store.\<close>

lemma url_distinct:
  "str ''https://a.example/1'' \<noteq> str ''https://b.example/2''"
  "str ''https://c.example/3'' \<noteq> str ''https://b.example/2''"
  by (simp_all add: str_def)

lemma scrape_one_loads:
  "extractJobDetails exampleResume 0 page = Some d \<Longrightarrow>
   scrapeAll exampleResume (oneLoads page) (fst freshWorld) searchHits
     = (\<lparr>initialized = True, openContexts = 2, maxConcurrency = 3\<rparr>, [d])"
  by (simp add: searchHits_def scrapeOne_def oneLoads_def deadWeb_def freshWorld_def url_distinct)

lemma search_hits:
  "searchAllRoles exampleResume (oneLoads page) (fst freshWorld) = (fst freshWorld, Inr searchHits)"
  "searchAllRoles exampleResume deadWeb (fst freshWorld) = (fst freshWorld, Inr searchHits)"
  by (simp_all add: searchAllRoles_def exampleResume_def exampleCandidate_def searchJobsForRole_def
      oneLoads_def deadWeb_def freshWorld_def searchHits_def url_distinct str_def)

lemma boardRecord_accepted:
  "map_sum id (map_option (list_all accepts))
     (scoreMultipleJobs exampleResume frozenClock [boardRecord]) = Inr (Some True)"
  by code_simp

lemma longSalary_refused:
  "map_sum id (map_option (list_all accepts))
     (scoreMultipleJobs exampleResume frozenClock
        [boardRecord\<lparr>salary_range := Some (replicate 101 57)\<rparr>]) = Inr (Some False)"
  by code_simp

text \<open>
  C9. For a run whose search returns: a URL whose visit fails contributes no record and
  the loop goes on with the remaining URLs, and a URL whose page loads contributes the
  record extracted from that page, if there is one. The records of the (at most 50)
  visited URLs are all scored, and the failed visits have no part in how the run ends:
  if the schema accepts every scored job, the run returns its result and the session row
  is completed, without error message, with the number of records as
  \<open>total_jobs_found\<close>; otherwise the query that is refused ends the run, and the session
  row is failed. If every visited URL fails, the result and the session row are
  completed with \<open>total_jobs_found = 0\<close> and \<open>top_jobs_selected = 0\<close>.
\<close>

theorem scraping_cycle_survives_failures:
  assumes "searchAllRoles rd env br = (br0, Inr results)"
  shows "((\<forall>p c. visit env (url r) \<noteq> PageLoaded p c) \<longrightarrow>
       snd (scrapeOne rd env b (url r)) = None
       \<and> scrapeAll rd env b (r # rs) = scrapeAll rd env (fst (scrapeOne rd env b (url r))) rs)
   \<and> (initialized b \<and> openContexts b < maxConcurrency b
        \<and> visit env (url r) = PageLoaded page closes \<longrightarrow>
       snd (scrapeAll rd env b (r # rs)) =
         (case extractJobDetails rd (parseClock env (url r)) page of None \<Rightarrow> [] | Some d \<Rightarrow> [d])
           @ snd (scrapeAll rd env (fst (scrapeOne rd env b (url r))) rs))
   \<and> (\<exists>br1 jobDetails scoredJobs.
           scrapeAll rd env br0 (take 50 results) = (br1, jobDetails)
         \<and> scoreMultipleJobs rd (scoringClock env) jobDetails = Inr (Some scoredJobs)
         \<and> mset (map JobDetails.truncate scoredJobs) = mset jobDetails
         \<and> (list_all accepts scoredJobs \<longrightarrow>
             (\<exists>db' row. executeFullScrapingCycle rd env (br, db) =
                 ((br1, db'),
                  Inr \<lparr>sessionId = next_session_id db, totalJobsFound = length jobDetails,
                       topJobsSelected =
                         length (selectTopJobs scoredJobs (topJobsCount env) (minScoreThreshold env)),
                       cycleAverageScore = averageScore (generateJobReport scoredJobs)\<rparr>)
               \<and> sessions db' (next_session_id db) = Some row
               \<and> status row = Completed \<and> error_message row = None
               \<and> total_jobs_found row = length jobDetails
               \<and> top_jobs_selected row =
                   length (selectTopJobs scoredJobs (topJobsCount env) (minScoreThreshold env))))
         \<and> (\<not> list_all accepts scoredJobs \<longrightarrow>
             (\<exists>db' row. executeFullScrapingCycle rd env (br, db) = ((br1, db'), Inl PersistenceError)
               \<and> sessions db' (next_session_id db) = Some row
               \<and> status row = Failed \<and> error_message row = Some PersistenceError)))
   \<and> ((\<forall>r \<in> set (take 50 results). \<forall>p c. visit env (url r) \<noteq> PageLoaded p c) \<longrightarrow>
       (\<exists>br' db'. executeFullScrapingCycle rd env (br, db) =
           ((br', db'), Inr \<lparr>sessionId = next_session_id db, totalJobsFound = 0,
                             topJobsSelected = 0, cycleAverageScore = Some 0\<rparr>)
         \<and> sessions db' (next_session_id db) =
             Some \<lparr>search_queries = roles (candidate rd), status = Completed,
                   total_jobs_found = 0, top_jobs_selected = 0,
                   completed_at = Some (finishClock env), error_message = None\<rparr>))"
proof -
  have a: "(\<forall>p c. visit env (url r) \<noteq> PageLoaded p c) \<longrightarrow>
       snd (scrapeOne rd env b (url r)) = None
       \<and> scrapeAll rd env b (r # rs) = scrapeAll rd env (fst (scrapeOne rd env b (url r))) rs"
    using scrapeOne_failure [of env "url r" rd b] scrapeAll_skip [of rd env b r rs] by blast
  have l: "initialized b \<and> openContexts b < maxConcurrency b
        \<and> visit env (url r) = PageLoaded page closes \<longrightarrow>
       snd (scrapeAll rd env b (r # rs)) =
         (case extractJobDetails rd (parseClock env (url r)) page of None \<Rightarrow> [] | Some d \<Rightarrow> [d])
           @ snd (scrapeAll rd env (fst (scrapeOne rd env b (url r))) rs)"
    using scrapeOne_loaded [of b env "url r" page closes rd] scrapeAll_step [of rd env b r rs]
    by simp
  have f: "(\<forall>r \<in> set (take 50 results). \<forall>p c. visit env (url r) \<noteq> PageLoaded p c) \<longrightarrow>
       (\<exists>br' db'. executeFullScrapingCycle rd env (br, db) =
           ((br', db'), Inr \<lparr>sessionId = next_session_id db, totalJobsFound = 0,
                             topJobsSelected = 0, cycleAverageScore = Some 0\<rparr>)
         \<and> sessions db' (next_session_id db) =
             Some \<lparr>search_queries = roles (candidate rd), status = Completed,
                   total_jobs_found = 0, top_jobs_selected = 0,
                   completed_at = Some (finishClock env), error_message = None\<rparr>)"
  proof
    assume h: "\<forall>r \<in> set (take 50 results). \<forall>p c. visit env (url r) \<noteq> PageLoaded p c"
    then have "snd (scrapeAll rd env br0 (take 50 results)) = []"
      by (rule scrapeAll_all_fail)
    then show "\<exists>br' db'. executeFullScrapingCycle rd env (br, db) =
           ((br', db'), Inr \<lparr>sessionId = next_session_id db, totalJobsFound = 0,
                             topJobsSelected = 0, cycleAverageScore = Some 0\<rparr>)
         \<and> sessions db' (next_session_id db) =
             Some \<lparr>search_queries = roles (candidate rd), status = Completed,
                   total_jobs_found = 0, top_jobs_selected = 0,
                   completed_at = Some (finishClock env), error_message = None\<rparr>"
      by (rule cycle_no_details [OF assms])
  qed
  show ?thesis using a l cycle_outcome [OF assms, of db] f by blast
qed

theorem scraping_cycle_survives_failures_witness:
  "searchAllRoles exampleResume deadWeb (fst freshWorld) = (fst freshWorld, Inr searchHits)
   \<and> snd (scrapeOne exampleResume deadWeb (fst freshWorld) (str ''https://b.example/2'')) = None
   \<and> snd (executeFullScrapingCycle exampleResume deadWeb freshWorld)
     = Inr \<lparr>sessionId = 1, totalJobsFound = 0, topJobsSelected = 0, cycleAverageScore = Some 0\<rparr>
   \<and> sessions (snd (fst (executeFullScrapingCycle exampleResume deadWeb freshWorld))) 1
     = Some \<lparr>search_queries = [str ''Backend Engineer''], status = Completed,
             total_jobs_found = 0, top_jobs_selected = 0,
             completed_at = Some 0, error_message = None\<rparr>
   \<and> snd (scrapeAll exampleResume (oneLoads boardPage) (fst freshWorld) searchHits)
     = [boardRecord]
   \<and> map_sum id totalJobsFound
       (snd (executeFullScrapingCycle exampleResume (oneLoads boardPage) freshWorld)) = Inr 1
   \<and> map_option status
       (sessions (snd (fst (executeFullScrapingCycle exampleResume (oneLoads boardPage) freshWorld))) 1)
     = Some Completed
   \<and> map_option total_jobs_found
       (sessions (snd (fst (executeFullScrapingCycle exampleResume (oneLoads boardPage) freshWorld))) 1)
     = Some 1
   \<and> snd (scrapeAll exampleResume (oneLoads longSalaryPage) (fst freshWorld) searchHits)
     = [boardRecord\<lparr>salary_range := Some (replicate 101 57)\<rparr>]
   \<and> snd (executeFullScrapingCycle exampleResume (oneLoads longSalaryPage) freshWorld)
     = Inl PersistenceError
   \<and> map_option status
       (sessions (snd (fst (executeFullScrapingCycle exampleResume (oneLoads longSalaryPage) freshWorld))) 1)
     = Some Failed"
proof -
  let ?br = "fst freshWorld"
  let ?db = "snd freshWorld"
  let ?b = "\<lparr>result_title = str ''B'', url = str ''https://b.example/2'', snippet = [],
       site = str ''b.example''\<rparr>"
  have w: "(?br, ?db) = freshWorld" by simp
  have n: "next_session_id ?db = 1" by (simp add: freshWorld_def)
  have t50: "take 50 searchHits = searchHits" by (simp add: searchHits_def)
  have q: "roles (candidate exampleResume) = [str ''Backend Engineer'']"
    by (simp add: exampleResume_def exampleCandidate_def)
  have ck: "\<And>page. scoringClock (oneLoads page) = frozenClock"
    by (simp add: oneLoads_def deadWeb_def)
  have f0: "\<forall>r \<in> set (take 50 searchHits). \<forall>p c. visit deadWeb (url r) \<noteq> PageLoaded p c"
    by (simp add: deadWeb_def)
  have fb: "\<forall>p c. visit deadWeb (url ?b) \<noteq> PageLoaded p c" by (simp add: deadWeb_def)
  have c0: "finishClock deadWeb = 0" by (simp add: deadWeb_def)
  note dead = scraping_cycle_survives_failures
    [OF search_hits(2), where r = ?b and b = ?br and db = ?db]
  have one: "snd (scrapeOne exampleResume deadWeb ?br (str ''https://b.example/2'')) = None"
    using dead fb by simp
  obtain br' db' where r0: "executeFullScrapingCycle exampleResume deadWeb (?br, ?db) =
           ((br', db'), Inr \<lparr>sessionId = next_session_id ?db, totalJobsFound = 0,
                             topJobsSelected = 0, cycleAverageScore = Some 0\<rparr>)"
     "sessions db' (next_session_id ?db) =
             Some \<lparr>search_queries = roles (candidate exampleResume), status = Completed,
                   total_jobs_found = 0, top_jobs_selected = 0,
                   completed_at = Some (finishClock deadWeb), error_message = None\<rparr>"
    using dead f0 by blast
  have d1: "snd (executeFullScrapingCycle exampleResume deadWeb freshWorld)
     = Inr \<lparr>sessionId = 1, totalJobsFound = 0, topJobsSelected = 0, cycleAverageScore = Some 0\<rparr>"
    using r0(1) n unfolding w by simp
  have d2: "sessions (snd (fst (executeFullScrapingCycle exampleResume deadWeb freshWorld))) 1
     = Some \<lparr>search_queries = [str ''Backend Engineer''], status = Completed,
             total_jobs_found = 0, top_jobs_selected = 0,
             completed_at = Some 0, error_message = None\<rparr>"
    using r0 n q c0 unfolding w by simp
  let ?one = "oneLoads boardPage"
  have j1: "scrapeAll exampleResume ?one ?br searchHits
     = (\<lparr>initialized = True, openContexts = 2, maxConcurrency = 3\<rparr>, [boardRecord])"
    using board_record by (rule scrape_one_loads)
  note live = scraping_cycle_survives_failures [OF search_hits(1), where page = boardPage and db = ?db]
  obtain br1 jobDetails scoredJobs where r1:
    "scrapeAll exampleResume ?one ?br (take 50 searchHits) = (br1, jobDetails)"
    "scoreMultipleJobs exampleResume (scoringClock ?one) jobDetails = Inr (Some scoredJobs)"
    "list_all accepts scoredJobs \<longrightarrow>
       (\<exists>db' row. executeFullScrapingCycle exampleResume ?one (?br, ?db) =
           ((br1, db'),
            Inr \<lparr>sessionId = next_session_id ?db, totalJobsFound = length jobDetails,
                 topJobsSelected =
                   length (selectTopJobs scoredJobs (topJobsCount ?one) (minScoreThreshold ?one)),
                 cycleAverageScore = averageScore (generateJobReport scoredJobs)\<rparr>)
         \<and> sessions db' (next_session_id ?db) = Some row
         \<and> status row = Completed \<and> error_message row = None
         \<and> total_jobs_found row = length jobDetails
         \<and> top_jobs_selected row =
             length (selectTopJobs scoredJobs (topJobsCount ?one) (minScoreThreshold ?one)))"
    using live by blast
  have jd1: "jobDetails = [boardRecord]" using r1(1) j1 unfolding t50 by simp
  have "list_all accepts scoredJobs" using boardRecord_accepted r1(2) unfolding jd1 ck by simp
  then obtain db1 row1 where e1:
    "executeFullScrapingCycle exampleResume ?one (?br, ?db) =
           ((br1, db1),
            Inr \<lparr>sessionId = next_session_id ?db, totalJobsFound = length jobDetails,
                 topJobsSelected =
                   length (selectTopJobs scoredJobs (topJobsCount ?one) (minScoreThreshold ?one)),
                 cycleAverageScore = averageScore (generateJobReport scoredJobs)\<rparr>)"
    "sessions db1 (next_session_id ?db) = Some row1" "status row1 = Completed"
    "total_jobs_found row1 = length jobDetails"
    using r1(3) by blast
  have m1: "map_sum id totalJobsFound
       (snd (executeFullScrapingCycle exampleResume ?one freshWorld)) = Inr 1"
    using e1(1) jd1 unfolding w by simp
  have m2: "map_option status
       (sessions (snd (fst (executeFullScrapingCycle exampleResume ?one freshWorld))) 1)
     = Some Completed"
    using e1 n unfolding w by simp
  have m3: "map_option total_jobs_found
       (sessions (snd (fst (executeFullScrapingCycle exampleResume ?one freshWorld))) 1)
     = Some 1"
    using e1 n jd1 unfolding w by simp
  let ?long = "oneLoads longSalaryPage"
  let ?rec = "boardRecord\<lparr>salary_range := Some (replicate 101 57)\<rparr>"
  have j2: "scrapeAll exampleResume ?long ?br searchHits
     = (\<lparr>initialized = True, openContexts = 2, maxConcurrency = 3\<rparr>, [?rec])"
    using long_record by (rule scrape_one_loads)
  note over = scraping_cycle_survives_failures
    [OF search_hits(1), where page = longSalaryPage and db = ?db]
  obtain br2 jobDetails2 scoredJobs2 where r2:
    "scrapeAll exampleResume ?long ?br (take 50 searchHits) = (br2, jobDetails2)"
    "scoreMultipleJobs exampleResume (scoringClock ?long) jobDetails2 = Inr (Some scoredJobs2)"
    "\<not> list_all accepts scoredJobs2 \<longrightarrow>
       (\<exists>db' row. executeFullScrapingCycle exampleResume ?long (?br, ?db)
            = ((br2, db'), Inl PersistenceError)
         \<and> sessions db' (next_session_id ?db) = Some row
         \<and> status row = Failed \<and> error_message row = Some PersistenceError)"
    using over by blast
  have jd2: "jobDetails2 = [?rec]" using r2(1) j2 unfolding t50 by simp
  have "\<not> list_all accepts scoredJobs2" using longSalary_refused r2(2) unfolding jd2 ck by simp
  then obtain db2 row2 where e2:
    "executeFullScrapingCycle exampleResume ?long (?br, ?db) = ((br2, db2), Inl PersistenceError)"
    "sessions db2 (next_session_id ?db) = Some row2" "status row2 = Failed"
    using r2(3) by blast
  have x1: "snd (executeFullScrapingCycle exampleResume ?long freshWorld) = Inl PersistenceError"
    using e2(1) unfolding w by simp
  have x2: "map_option status
       (sessions (snd (fst (executeFullScrapingCycle exampleResume ?long freshWorld))) 1)
     = Some Failed"
    using e2 n unfolding w by simp
  show ?thesis using search_hits(2) one d1 d2 j1 m1 m2 m3 j2 x1 x2 by simp
qed

end
